theory Spec2Isabelle
  imports Complex_Main "HOL-Library.Word" "HOL-Library.Log_Nat"
begin

unbundle bit_operations_syntax

section \<open>Host-side types shared by the parallel primitives\<close>

text \<open>
  \<^verbatim>\<open>Common/Errata.h\<close>: the result code of every fallible host operation and the error
  record filled by \<^verbatim>\<open>FILL_ERRATA\<close>.  The host is the 64-bit Windows build:
  \<^verbatim>\<open>size_t\<close> and \<^verbatim>\<open>CL_ULONG\<close> are 64-bit words, \<^verbatim>\<open>CL_UINT\<close> is a 32-bit
  word, \<^verbatim>\<open>int\<close> is a 32-bit two's complement word.
\<close>

type_synonym u32 = "32 word"
type_synonym u64 = "64 word"
type_synonym cl_mem = nat

datatype Result = Success | Error

record Errata =
  message :: string
  funcName :: string

definition FILL_ERRATA :: "string \<Rightarrow> string \<Rightarrow> Errata" where
  "FILL_ERRATA fn msg = \<lparr> message = msg, funcName = fn \<rparr>"

text \<open>
  One kernel launch as the compute backend sees it: the kernel, its scalar arguments and
  the 1-D global and local work sizes.  The backend is a function from the launch to the
  error it reports, if any (\<^verbatim>\<open>setKernelArgument\<close>, \<^verbatim>\<open>enqueueKernel\<close>,
  \<^verbatim>\<open>flushQueue\<close> and \<^verbatim>\<open>evt.wait\<close> all return through the same \<^verbatim>\<open>Errata\<close>).
  The trace lists the launches handed to \<^verbatim>\<open>enqueueKernel\<close>, oldest first.
\<close>

record launch =
  kernel :: string
  scalarArgs :: "u32 list"
  globalDim :: u64
  localDim :: u64

datatype outcome = Ok | ArgumentFailure Errata | LaunchFailure Errata

type_synonym backend = "launch \<Rightarrow> outcome"

definition runKernel :: "backend \<Rightarrow> launch \<Rightarrow> Errata \<Rightarrow> launch list \<Rightarrow> Result \<times> Errata \<times> launch list" where
  "runKernel dev l err tr =
     (case dev l of
        ArgumentFailure e \<Rightarrow> (Error, e, tr)
      | LaunchFailure e \<Rightarrow> (Error, e, tr @ [l])
      | Ok \<Rightarrow> (Success, err, tr @ [l]))"

section \<open>Prefix sum (\<^verbatim>\<open>PrefixSum.cpp\<close>)\<close>

text \<open>\<^verbatim>\<open>isPowerOfTwo\<close> of \<^verbatim>\<open>RTKernelUtils.h\<close>: 0 and 1 are accepted outright, then the
  loop compares \<^verbatim>\<open>1 << shift\<close> for shift 1 to 63.\<close>

definition isPowerOfTwo :: "u64 \<Rightarrow> bool" where
  "isPowerOfTwo x =
     (if x = 0 \<or> x = 1 then True
      else list_ex (\<lambda>shift. push_bit shift (1 :: u64) = x) [1 ..< 64])"

record PrefixSum =
  deviceLocalMemory :: u64
  deviceProcessors :: u64
  deviceWavefront :: u64
  maxWorkgroupSize :: u64
  outputBuffer :: cl_mem
  inputBuffer :: cl_mem

text \<open>\<^verbatim>\<open>invokeGroupKernel(CL_UINT offset, CL_UINT length, Errata& err)\<close>.  The two unsigned
  divisions trap on a zero divisor; the trap is the value \<open>None\<close>.\<close>

definition invokeGroupKernel ::
  "backend \<Rightarrow> PrefixSum \<Rightarrow> u32 \<Rightarrow> u32 \<Rightarrow> Errata \<Rightarrow> launch list
     \<Rightarrow> (Result \<times> Errata \<times> launch list) option" where
  "invokeGroupKernel dev ps offset len err tr =
     (if offset = 0 then None
      else let dataSize = (ucast (len div offset) :: u64);
               localThreads = maxWorkgroupSize ps;
               globalThreads = drop_bit 1 (dataSize + 1)
           in if localThreads = 0 then None
              else let globalThreads' = ((globalThreads + localThreads - 1) div localThreads) * localThreads;
                       localMemSize = (push_bit 1 (ucast (localThreads * 4) :: u32))
                   in Some (runKernel dev
                        \<lparr> kernel = ''group_prefixSum'', scalarArgs = [offset, len, localMemSize],
                          globalDim = globalThreads', localDim = maxWorkgroupSize ps \<rparr> err tr))"

text \<open>\<^verbatim>\<open>invokeGlobalKernel(CL_UINT offset, CL_UINT length, Errata& err)\<close>.\<close>

definition invokeGlobalKernel ::
  "backend \<Rightarrow> PrefixSum \<Rightarrow> u32 \<Rightarrow> u32 \<Rightarrow> Errata \<Rightarrow> launch list
     \<Rightarrow> (Result \<times> Errata \<times> launch list) option" where
  "invokeGlobalKernel dev ps offset len err tr =
     (let localThreads = maxWorkgroupSize ps;
          localDataSize = push_bit 1 localThreads;
          globalThreads = (ucast (len - offset) :: u64);
          divisor = (ucast offset :: u64) * localDataSize
      in if divisor = 0 then None
         else let globalThreads' = globalThreads - (globalThreads div divisor) * ucast offset
              in if localThreads = 0 then None
                 else let globalThreads'' = ((globalThreads' + localThreads - 1) div localThreads) * localThreads
                      in Some (runKernel dev
                           \<lparr> kernel = ''global_prefixSum'', scalarArgs = [offset, len],
                             globalDim = globalThreads'', localDim = maxWorkgroupSize ps \<rparr> err tr))"

text \<open>The scan loop of \<^verbatim>\<open>computePrefixSum\<close>:
  \<^verbatim>\<open>for (size_t offset = 1; offset < size; offset *= localDataSize)\<close>.  It need not
  terminate (a zero \<^verbatim>\<open>localDataSize\<close>), so it is a partial function: \<open>None\<close> is a
  trap or a run that never returns.\<close>

partial_function (option) scanLoop ::
  "backend \<Rightarrow> PrefixSum \<Rightarrow> u64 \<Rightarrow> u64 \<Rightarrow> u64 \<Rightarrow> Errata \<Rightarrow> launch list
     \<Rightarrow> (Result \<times> Errata \<times> launch list) option" where
  "scanLoop dev ps sz localDataSize offset err tr =
     (if offset < sz then
        (if offset = 0 then None
         else Option.bind
           (if sz div offset > 1
            then invokeGroupKernel dev ps (ucast offset) (ucast sz) err tr
            else Some (Success, err, tr))
           (\<lambda>(r1, err1, tr1).
              if r1 \<noteq> Success then Some (Error, err1, tr1)
              else Option.bind
                (if offset > 1
                 then invokeGlobalKernel dev ps (ucast offset) (ucast sz) err1 tr1
                 else Some (Success, err1, tr1))
                (\<lambda>(r2, err2, tr2).
                   if r2 \<noteq> Success then Some (Error, err2, tr2)
                   else scanLoop dev ps sz localDataSize (offset * localDataSize) err2 tr2)))
      else Some (Success, err, tr))"

text \<open>\<^verbatim>\<open>PrefixSum::computePrefixSum\<close>.  The result is the return code, the \<^verbatim>\<open>err\<close>
  out-parameter, the object (its two buffer fields are assigned after the checks) and the
  launches made.\<close>

definition computePrefixSum ::
  "backend \<Rightarrow> PrefixSum \<Rightarrow> cl_mem \<Rightarrow> cl_mem \<Rightarrow> u64 \<Rightarrow> Errata
     \<Rightarrow> (Result \<times> Errata \<times> PrefixSum \<times> launch list) option" where
  "computePrefixSum dev ps inputBuf outputBuf sz err =
     (if \<not> isPowerOfTwo sz
      then Some (Error, FILL_ERRATA ''PrefixSum::computePrefixSum'' ''Input size must be adjusted to power of 2'', ps, [])
      else let localDataSize = push_bit 1 (maxWorkgroupSize ps);
               neededLocalMemory = localDataSize * 4
           in if neededLocalMemory > deviceLocalMemory ps
              then Some (Error, FILL_ERRATA ''PrefixSum::computePrefixSum'' ''Insufficient Local Memory'', ps, [])
              else let ps' = ps\<lparr> outputBuffer := outputBuf, inputBuffer := inputBuf \<rparr>
                   in map_option (\<lambda>(r, e, tr). (r, e, ps', tr))
                        (scanLoop dev ps' sz localDataSize 1 err []))"


text \<open>The mathematical notion the specification uses: a power of two that fits a 64-bit
  \<^verbatim>\<open>size_t\<close>.\<close>

definition power_of_two :: "nat \<Rightarrow> bool" where
  "power_of_two n = list_ex (\<lambda>k. n = 2 ^ k) [0 ..< 64]"

text \<open>A device of 256 work items per group and 32 KiB of local memory, one with only 1 KiB,
  and a backend on which every call succeeds.\<close>

definition dev0 :: backend where
  "dev0 = (\<lambda>l. Ok)"

definition ps0 :: PrefixSum where
  "ps0 = \<lparr> deviceLocalMemory = 32768, deviceProcessors = 8, deviceWavefront = 64,
           maxWorkgroupSize = 256, outputBuffer = 0, inputBuffer = 0 \<rparr>"

definition ps1 :: PrefixSum where
  "ps1 = \<lparr> deviceLocalMemory = 1024, deviceProcessors = 8, deviceWavefront = 64,
           maxWorkgroupSize = 256, outputBuffer = 0, inputBuffer = 0 \<rparr>"

definition err0 :: Errata where
  "err0 = \<lparr> message = [], funcName = [] \<rparr>"

section \<open>Bitonic sort (\<^verbatim>\<open>BitonicSort.cpp\<close>)\<close>





























section \<open>Single-precision floating point (\<^verbatim>\<open>CL_FLOAT\<close>)\<close>

text \<open>
  A \<^verbatim>\<open>float\<close> is a finite value, an infinity or a NaN.  Finite results of the
  arithmetic operations are rounded to the nearest binary32 value, ties to even, with
  gradual underflow and overflow to infinity; a division by zero gives an infinity or a
  NaN and never traps.  The two zeros are not told apart (a zero divisor counts as
  \<open>+0\<close>), and the operations are the correctly rounded ones.
\<close>

datatype cl_float = Fin real | PInf | NInf | NaN

text \<open>The power \<open>2\<^sup>e\<close> for an integer exponent.\<close>

definition pow2 :: "int \<Rightarrow> real" where
  "pow2 e = (if 0 \<le> e then 2 ^ nat e else 1 / 2 ^ nat (- e))"

text \<open>The number of binary digits of a natural number.\<close>

fun nbits :: "nat \<Rightarrow> nat" where
  "nbits n = (if n = 0 then 0 else Suc (nbits (n div 2)))"

declare nbits.simps [simp del]

text \<open>The binary exponent of a positive real: \<open>2\<^sup>e \<le> a < 2\<^sup>e\<^sup>+\<^sup>1\<close>.\<close>

definition expo :: "real \<Rightarrow> int" where
  "expo a = (if 1 \<le> a then int (nbits (nat \<lfloor>a\<rfloor>)) - 1
             else - int (nbits (nat (\<lceil>1 / a\<rceil> - 1))))"

text \<open>Rounding to the nearest integer, ties to even.\<close>

definition rhe :: "real \<Rightarrow> int" where
  "rhe y = (let f = \<lfloor>y\<rfloor>; d = y - of_int f
            in if d < 1 / 2 then f else if 1 / 2 < d then f + 1
               else if even f then f else f + 1)"

text \<open>Rounding a real to binary32: 24 significant bits, exponents from \<open>-126\<close> (below
  it the spacing stays \<open>2\<^sup>-\<^sup>1\<^sup>4\<^sup>9\<close>), and infinity from \<open>2\<^sup>1\<^sup>2\<^sup>8\<close> on.\<close>

definition round32 :: "real \<Rightarrow> cl_float" where
  "round32 x =
     (if x = 0 then Fin 0
      else let a = \<bar>x\<bar>;
               e = max (expo a) (- 126);
               u = pow2 (e - 23);
               r = of_int (rhe (a / u)) * u
           in if 2 ^ 128 \<le> r then (if 0 < x then PInf else NInf)
              else Fin (if 0 < x then r else - r))"

definition FLT_EPSILON :: cl_float where
  "FLT_EPSILON = Fin (1 / 2 ^ 23)"

definition FLT_MAX :: cl_float where
  "FLT_MAX = Fin ((2 ^ 24 - 1) * 2 ^ 104)"

definition FLT_MIN :: cl_float where
  "FLT_MIN = Fin (1 / 2 ^ 126)"

fun fneg :: "cl_float \<Rightarrow> cl_float" where
  "fneg (Fin a) = Fin (- a)"
| "fneg PInf = NInf"
| "fneg NInf = PInf"
| "fneg NaN = NaN"

fun fadd :: "cl_float \<Rightarrow> cl_float \<Rightarrow> cl_float" where
  "fadd (Fin a) (Fin b) = round32 (a + b)"
| "fadd NaN _ = NaN"
| "fadd _ NaN = NaN"
| "fadd PInf NInf = NaN"
| "fadd NInf PInf = NaN"
| "fadd PInf _ = PInf"
| "fadd NInf _ = NInf"
| "fadd _ PInf = PInf"
| "fadd _ NInf = NInf"

definition fsub :: "cl_float \<Rightarrow> cl_float \<Rightarrow> cl_float" where
  "fsub a b = fadd a (fneg b)"

text \<open>The sign of an infinite product or quotient.\<close>

definition signed_inf :: "bool \<Rightarrow> cl_float" where
  "signed_inf positive = (if positive then PInf else NInf)"

fun fmul :: "cl_float \<Rightarrow> cl_float \<Rightarrow> cl_float" where
  "fmul (Fin a) (Fin b) = round32 (a * b)"
| "fmul NaN _ = NaN"
| "fmul _ NaN = NaN"
| "fmul PInf (Fin b) = (if b = 0 then NaN else signed_inf (0 < b))"
| "fmul NInf (Fin b) = (if b = 0 then NaN else signed_inf (b < 0))"
| "fmul (Fin a) PInf = (if a = 0 then NaN else signed_inf (0 < a))"
| "fmul (Fin a) NInf = (if a = 0 then NaN else signed_inf (a < 0))"
| "fmul PInf PInf = PInf"
| "fmul NInf NInf = PInf"
| "fmul PInf NInf = NInf"
| "fmul NInf PInf = NInf"

fun fdiv :: "cl_float \<Rightarrow> cl_float \<Rightarrow> cl_float" where
  "fdiv (Fin a) (Fin b) =
     (if b = 0 then (if a = 0 then NaN else signed_inf (0 < a)) else round32 (a / b))"
| "fdiv NaN _ = NaN"
| "fdiv _ NaN = NaN"
| "fdiv (Fin a) PInf = Fin 0"
| "fdiv (Fin a) NInf = Fin 0"
| "fdiv PInf (Fin b) = signed_inf (0 \<le> b)"
| "fdiv NInf (Fin b) = signed_inf (b < 0)"
| "fdiv PInf _ = NaN"
| "fdiv NInf _ = NaN"

text \<open>Comparisons: every comparison with a NaN is false.\<close>

fun flt :: "cl_float \<Rightarrow> cl_float \<Rightarrow> bool" where
  "flt (Fin a) (Fin b) = (a < b)"
| "flt NaN _ = False"
| "flt _ NaN = False"
| "flt NInf NInf = False"
| "flt NInf _ = True"
| "flt _ NInf = False"
| "flt PInf _ = False"
| "flt _ PInf = True"

definition fgt :: "cl_float \<Rightarrow> cl_float \<Rightarrow> bool" where
  "fgt a b = flt b a"

fun feq :: "cl_float \<Rightarrow> cl_float \<Rightarrow> bool" where
  "feq NaN _ = False"
| "feq _ NaN = False"
| "feq a b = (a = b)"

definition fle :: "cl_float \<Rightarrow> cl_float \<Rightarrow> bool" where
  "fle a b = (flt a b \<or> feq a b)"

definition fge :: "cl_float \<Rightarrow> cl_float \<Rightarrow> bool" where
  "fge a b = fle b a"

text \<open>\<^verbatim>\<open>#define min(X, Y) (((X) < (Y)) ? (X) : (Y))\<close> and
  \<^verbatim>\<open>#define max(X, Y) (((X) > (Y)) ? (X) : (Y))\<close> of \<^verbatim>\<open>CLPortability.h\<close>.\<close>

definition fmin :: "cl_float \<Rightarrow> cl_float \<Rightarrow> cl_float" where
  "fmin X Y = (if flt X Y then X else Y)"

definition fmax :: "cl_float \<Rightarrow> cl_float \<Rightarrow> cl_float" where
  "fmax X Y = (if fgt X Y then X else Y)"

fun fabs :: "cl_float \<Rightarrow> cl_float" where
  "fabs (Fin a) = Fin \<bar>a\<bar>"
| "fabs PInf = PInf"
| "fabs NInf = PInf"
| "fabs NaN = NaN"

fun ffloor :: "cl_float \<Rightarrow> cl_float" where
  "ffloor (Fin a) = Fin (of_int \<lfloor>a\<rfloor>)"
| "ffloor x = x"

fun fsqrt :: "cl_float \<Rightarrow> cl_float" where
  "fsqrt (Fin a) = (if a < 0 then NaN else round32 (sqrt a))"
| "fsqrt PInf = PInf"
| "fsqrt NInf = NaN"
| "fsqrt NaN = NaN"

text \<open>Conversions.  An unsigned integer converts to the nearest \<^verbatim>\<open>float\<close>; a
  \<^verbatim>\<open>bool\<close> or 0/1 flag to 0 or 1.  A \<^verbatim>\<open>float\<close> converts to \<^verbatim>\<open>CL_UINT\<close> by
  truncation when the truncated value fits, and is undefined otherwise (\<open>None\<close>).\<close>

definition float_of_uint :: "u32 \<Rightarrow> cl_float" where
  "float_of_uint w = round32 (real (unat w))"

definition float_of_bool :: "bool \<Rightarrow> cl_float" where
  "float_of_bool b = Fin (if b then 1 else 0)"

fun uint_of_float :: "cl_float \<Rightarrow> u32 option" where
  "uint_of_float (Fin a) =
     (if - 1 < a \<and> a < 2 ^ 32 then Some (word_of_int (if 0 \<le> a then \<lfloor>a\<rfloor> else 0)) else None)"
| "uint_of_float _ = None"

text \<open>Three- and four-wide vectors, componentwise as the operators of
  \<^verbatim>\<open>CLPortability.h\<close> define them.\<close>

record float3 =
  x3 :: cl_float
  y3 :: cl_float
  z3 :: cl_float

record float4 =
  x4 :: cl_float
  y4 :: cl_float
  z4 :: cl_float
  w4 :: cl_float

definition vec3 :: "cl_float \<Rightarrow> cl_float \<Rightarrow> cl_float \<Rightarrow> float3" where
  "vec3 a b c = \<lparr> x3 = a, y3 = b, z3 = c \<rparr>"

definition vec4 :: "cl_float \<Rightarrow> cl_float \<Rightarrow> cl_float \<Rightarrow> cl_float \<Rightarrow> float4" where
  "vec4 a b c d = \<lparr> x4 = a, y4 = b, z4 = c, w4 = d \<rparr>"

definition sub3 :: "float3 \<Rightarrow> float3 \<Rightarrow> float3" where
  "sub3 a b = vec3 (fsub (x3 a) (x3 b)) (fsub (y3 a) (y3 b)) (fsub (z3 a) (z3 b))"

definition add3 :: "float3 \<Rightarrow> float3 \<Rightarrow> float3" where
  "add3 a b = vec3 (fadd (x3 a) (x3 b)) (fadd (y3 a) (y3 b)) (fadd (z3 a) (z3 b))"

definition div3 :: "float3 \<Rightarrow> float3 \<Rightarrow> float3" where
  "div3 a b = vec3 (fdiv (x3 a) (x3 b)) (fdiv (y3 a) (y3 b)) (fdiv (z3 a) (z3 b))"

definition min3 :: "float3 \<Rightarrow> float3 \<Rightarrow> float3" where
  "min3 a b = vec3 (fmin (x3 a) (x3 b)) (fmin (y3 a) (y3 b)) (fmin (z3 a) (z3 b))"

definition max3 :: "float3 \<Rightarrow> float3 \<Rightarrow> float3" where
  "max3 a b = vec3 (fmax (x3 a) (x3 b)) (fmax (y3 a) (y3 b)) (fmax (z3 a) (z3 b))"

definition floor3 :: "float3 \<Rightarrow> float3" where
  "floor3 v = vec3 (ffloor (x3 v)) (ffloor (y3 v)) (ffloor (z3 v))"

text \<open>\<^verbatim>\<open>cross\<close> and \<^verbatim>\<open>dot\<close>, each product and sum rounded in the order written.\<close>

definition cross :: "float3 \<Rightarrow> float3 \<Rightarrow> float3" where
  "cross a b = vec3 (fsub (fmul (y3 a) (z3 b)) (fmul (z3 a) (y3 b)))
                    (fsub (fmul (z3 a) (x3 b)) (fmul (x3 a) (z3 b)))
                    (fsub (fmul (x3 a) (y3 b)) (fmul (y3 a) (x3 b)))"

definition dot :: "float3 \<Rightarrow> float3 \<Rightarrow> cl_float" where
  "dot a b = fadd (fadd (fmul (x3 a) (x3 b)) (fmul (y3 a) (y3 b))) (fmul (z3 a) (z3 b))"

text \<open>\<^verbatim>\<open>cpu_normalize\<close>: \<^verbatim>\<open>l = 1/sqrt(x*x + y*y + z*z)\<close>, then each lane times \<^verbatim>\<open>l\<close>.\<close>

definition normalize :: "float3 \<Rightarrow> float3" where
  "normalize v =
     (let l = fdiv (Fin 1) (fsqrt (fadd (fadd (fmul (x3 v) (x3 v)) (fmul (y3 v) (y3 v)))
                                       (fmul (z3 v) (z3 v))))
      in vec3 (fmul (x3 v) l) (fmul (y3 v) l) (fmul (z3 v) l))"

text \<open>\<^verbatim>\<open>struct AABB { CL_FLOAT4 bounds[2]; }\<close>: the minimum and the maximum corner.\<close>

record AABB =
  bounds0 :: float4
  bounds1 :: float4

section \<open>Boxes (\<^verbatim>\<open>Primitives/AABB.h\<close>)\<close>

text \<open>\<^verbatim>\<open>calculateTriangleAABB\<close>: the componentwise minimum and maximum of the three
  vertices; then, in every axis whose extent is below \<^verbatim>\<open>FLT_EPSILON\<close>, the maximum is
  raised and the minimum lowered by \<^verbatim>\<open>FLT_EPSILON\<close>.  The flags are \<^verbatim>\<open>CL_UINT\<close>s
  (0 or 1) multiplied into the amount.\<close>

definition calculateTriangleAABB :: "float3 \<Rightarrow> float3 \<Rightarrow> float3 \<Rightarrow> AABB" where
  "calculateTriangleAABB v1 v2 v3 =
     (let lo = min3 (min3 v1 v2) v3;
          hi = max3 (max3 v1 v2) v3;
          xFlat = (if flt (fsub (x3 hi) (x3 lo)) FLT_EPSILON then 1 else 0 :: u32);
          yFlat = (if flt (fsub (y3 hi) (y3 lo)) FLT_EPSILON then 1 else 0 :: u32);
          zFlat = (if flt (fsub (z3 hi) (z3 lo)) FLT_EPSILON then 1 else 0 :: u32)
      in \<lparr> bounds0 = vec4 (fsub (x3 lo) (fmul (float_of_uint xFlat) FLT_EPSILON))
                           (fsub (y3 lo) (fmul (float_of_uint yFlat) FLT_EPSILON))
                           (fsub (z3 lo) (fmul (float_of_uint zFlat) FLT_EPSILON))
                           (Fin 0),
           bounds1 = vec4 (fadd (x3 hi) (fmul (float_of_uint xFlat) FLT_EPSILON))
                           (fadd (y3 hi) (fmul (float_of_uint yFlat) FLT_EPSILON))
                           (fadd (z3 hi) (fmul (float_of_uint zFlat) FLT_EPSILON))
                           (Fin 0) \<rparr>)"

text \<open>\<^verbatim>\<open>AABBIntersect\<close>, the slab test.  \<^verbatim>\<open>#define INV_DIR_X(dir) 1.0f/(dir).x\<close> has
  no parentheses of its own: where it is written in parentheses it is the reciprocal, and
  \<^verbatim>\<open>(b - ro.x) * INV_DIR_X(rd)\<close> is \<^verbatim>\<open>((b - ro.x) * 1.0f) / rd.x\<close>.  A comparison used
  as an array index selects \<^verbatim>\<open>bounds[1]\<close> when true.\<close>

definition slab :: "cl_float \<Rightarrow> cl_float \<Rightarrow> cl_float \<Rightarrow> cl_float \<Rightarrow> cl_float \<times> cl_float" where
  "slab b0 b1 org d =
     (let neg = fgt (Fin 0) (fdiv (Fin 1) d)
      in (fdiv (fmul (fsub (if neg then b1 else b0) org) (Fin 1)) d,
          fdiv (fmul (fsub (if neg then b0 else b1) org) (Fin 1)) d))"

definition AABBIntersect :: "AABB \<Rightarrow> float3 \<Rightarrow> float3 \<Rightarrow> cl_float" where
  "AABBIntersect aabb ro rd =
     (let (tmin, tmax) = slab (x4 (bounds0 aabb)) (x4 (bounds1 aabb)) (x3 ro) (x3 rd);
          (tymin, tymax) = slab (y4 (bounds0 aabb)) (y4 (bounds1 aabb)) (y3 ro) (y3 rd);
          flag = (\<not> (fgt tmin tymax \<or> fgt tymin tmax));
          tmin1 = fmax tmin tymin;
          tmax1 = fmin tmax tymax;
          (tzmin, tzmax) = slab (z4 (bounds0 aabb)) (z4 (bounds1 aabb)) (z3 ro) (z3 rd);
          flag1 = (flag \<and> \<not> (fgt tmin1 tzmax \<or> fgt tzmin tmax1));
          tmin2 = fmax tmin1 tzmin
      in fmul tmin2 (float_of_bool flag1))"

text \<open>\<^verbatim>\<open>isPointInside\<close>, with \<^verbatim>\<open>containedInRange(lo,hi,value)\<close> expanded.\<close>

definition isPointInside :: "AABB \<Rightarrow> float3 \<Rightarrow> bool" where
  "isPointInside aabb point =
     (let xIn = (fle (x4 (bounds0 aabb)) (x3 point) \<and> fle (x3 point) (x4 (bounds1 aabb)));
          yIn = (fle (y4 (bounds0 aabb)) (y3 point) \<and> fle (y3 point) (y4 (bounds1 aabb)));
          zIn = (fle (z4 (bounds0 aabb)) (z3 point) \<and> fle (z3 point) (z4 (bounds1 aabb)))
      in xIn \<and> yIn \<and> zIn)"

section \<open>Triangles (\<^verbatim>\<open>Primitives/Triangle.h\<close>)\<close>

text \<open>\<^verbatim>\<open>triangleIntersect\<close>.  The \<^verbatim>\<open>int flag\<close> only ever holds 0 or 1 and is a
  boolean here; in the product that gives \<^verbatim>\<open>t\<close> it converts to 0.0 or 1.0.\<close>

definition triangleIntersect ::
  "float3 \<Rightarrow> float3 \<Rightarrow> float3 \<Rightarrow> float3 \<Rightarrow> float3 \<Rightarrow> float4" where
  "triangleIntersect vert0 vert1 vert2 orig dir =
     (let edge1 = sub3 vert1 vert0;
          edge2 = sub3 vert2 vert0;
          pvec = cross dir edge2;
          det = dot edge1 pvec;
          flag = fge (fabs det) FLT_EPSILON;
          inv_det = fdiv (Fin 1) det;
          tvec = sub3 orig vert0;
          u = fmul (dot tvec pvec) inv_det;
          flag1 = (flag \<and> flt u (Fin 1));
          flag2 = (flag1 \<and> fge u (Fin 0));
          qvec = cross tvec edge1;
          v = fmul (dot dir qvec) inv_det;
          flag3 = (flag2 \<and> fle (fadd u v) (Fin 1));
          flag4 = (flag3 \<and> fge v (Fin 0));
          t = fmul (fmul (dot edge2 qvec) inv_det) (float_of_bool flag4);
          normal = normalize (cross edge1 edge2)
      in vec4 (x3 normal) (y3 normal) (z3 normal) t)"

text \<open>The determinant \<^verbatim>\<open>det\<close> that \<^verbatim>\<open>triangleIntersect\<close> computes.\<close>

definition triangleDet :: "float3 \<Rightarrow> float3 \<Rightarrow> float3 \<Rightarrow> float3 \<Rightarrow> cl_float" where
  "triangleDet vert0 vert1 vert2 dir = dot (sub3 vert1 vert0) (cross dir (sub3 vert2 vert0))"

section \<open>Quaternions (\<^verbatim>\<open>Transform.h\<close>)\<close>

record Quaternion =
  q_r :: cl_float
  q_i :: cl_float
  q_j :: cl_float
  q_k :: cl_float

definition zeroRotation :: Quaternion where
  "zeroRotation = \<lparr> q_r = Fin 1, q_i = Fin 0, q_j = Fin 0, q_k = Fin 0 \<rparr>"

text \<open>The squared magnitude \<^verbatim>\<open>d = q->r*q->r + q->i*q->i + q->j*q->j + q->k*q->k\<close>.\<close>

definition squaredMagnitude :: "Quaternion \<Rightarrow> cl_float" where
  "squaredMagnitude q =
     fadd (fadd (fadd (fmul (q_r q) (q_r q)) (fmul (q_i q) (q_i q))) (fmul (q_j q) (q_j q)))
          (fmul (q_k q) (q_k q))"

text \<open>\<^verbatim>\<open>normalizeQuaternion\<close>, returning the quaternion it leaves behind the pointer.\<close>

definition normalizeQuaternion :: "Quaternion \<Rightarrow> Quaternion" where
  "normalizeQuaternion q =
     (let d = squaredMagnitude q
      in if flt d FLT_EPSILON
         then q\<lparr> q_i := Fin 0, q_j := Fin 0, q_k := Fin 0, q_r := Fin 1 \<rparr>
         else let d' = fdiv (Fin 1) (fsqrt d)
              in q\<lparr> q_r := fmul (q_r q) d', q_i := fmul (q_i q) d',
                    q_j := fmul (q_j q) d', q_k := fmul (q_k q) d' \<rparr>)"

text \<open>A triangle in the plane \<open>x = 4\<close>, and the triangle and ray of a ray parallel to the
  triangle's plane.\<close>

definition flat_v1 :: float3 where "flat_v1 = vec3 (Fin 4) (Fin 0) (Fin 0)"
definition flat_v2 :: float3 where "flat_v2 = vec3 (Fin 4) (Fin 1) (Fin 0)"
definition flat_v3 :: float3 where "flat_v3 = vec3 (Fin 4) (Fin 0) (Fin 1)"

definition tri_v0 :: float3 where "tri_v0 = vec3 (Fin 0) (Fin 0) (Fin 5)"
definition tri_v1 :: float3 where "tri_v1 = vec3 (Fin 1) (Fin 0) (Fin 5)"
definition tri_v2 :: float3 where "tri_v2 = vec3 (Fin 0) (Fin 1) (Fin 5)"
definition ray_origin :: float3 where "ray_origin = vec3 (Fin 0) (Fin 0) (Fin 0)"
definition ray_along_x :: float3 where "ray_along_x = vec3 (Fin 1) (Fin 0) (Fin 0)"

section \<open>BVH nodes and traversal (\<^verbatim>\<open>AccelerationStructs/BVHData.h\<close>, \<^verbatim>\<open>BVH.h\<close>)\<close>

text \<open>An access outside a buffer, or past the 32 entries of the traversal stack, is a
  fault, and so are the conversion to \<^verbatim>\<open>CL_UINT\<close> of a \<^verbatim>\<open>float\<close> whose truncated value
  does not fit (or of a NaN) and an integer division by zero; the functions that can do
  any of them return \<open>fault + result\<close>.\<close>

datatype fault = OutOfBounds | UndefinedConversion | DivisionByZero

definition readAt :: "'a list \<Rightarrow> nat \<Rightarrow> fault + 'a" where
  "readAt xs n = (if n < length xs then Inr (xs ! n) else Inl OutOfBounds)"

text \<open>\<^verbatim>\<open>struct BVHNode { CL_UINT data[4]; struct AABB boundingBox; }\<close> and the access
  macros of \<^verbatim>\<open>BVHData.h\<close>.  The node type is kept in \<^verbatim>\<open>boundingBox.bounds[0].w\<close>.\<close>

record BVHNode =
  data0 :: u32
  data1 :: u32
  data2 :: u32
  data3 :: u32
  boundingBox :: AABB

definition LEAF_NODE :: cl_float where "LEAF_NODE = Fin 1"
definition INNER_NODE :: cl_float where "INNER_NODE = Fin 0"
definition UINT_MAX :: u32 where "UINT_MAX = - 1"

definition parent :: "BVHNode \<Rightarrow> u32" where "parent n = data0 n"
definition childA :: "BVHNode \<Rightarrow> u32" where "childA n = data1 n"
definition childB :: "BVHNode \<Rightarrow> u32" where "childB n = data2 n"
definition triangleIndex :: "BVHNode \<Rightarrow> u32" where "triangleIndex n = data1 n"
definition submeshIndex :: "BVHNode \<Rightarrow> u32" where "submeshIndex n = data2 n"
definition modelIndex :: "BVHNode \<Rightarrow> u32" where "modelIndex n = data3 n"
definition node_type :: "BVHNode \<Rightarrow> cl_float" where
  "node_type n = w4 (bounds0 (boundingBox n))"

record Ray =
  idx :: u32
  origin :: float3
  direction :: float3

record Contact =
  pixelIndex :: u32
  materialIndex :: u32
  normalAndintersectionDistance :: float4

text \<open>The scene buffer as the traversal reads it: the three vertices of triangle
  \<open>(model, submesh, triangle)\<close> and the material index of its mesh header.\<close>

type_synonym scene = "u32 \<Rightarrow> u32 \<Rightarrow> u32 \<Rightarrow> float3 \<times> float3 \<times> float3 \<times> u32"

text \<open>The local state of \<^verbatim>\<open>bvh_generate_contact\<close>.\<close>

record traversal =
  stack :: "u32 list"
  stackPointer :: nat
  currentIdx :: u32
  resContactData :: float4
  resMaterialIdx :: u32

text \<open>\<^verbatim>\<open>stack[stackPointer++] = v\<close> and \<^verbatim>\<open>currentIdx = stack[--stackPointer]\<close> on the
  array \<^verbatim>\<open>CL_UINT stack[32]\<close>.\<close>

definition push :: "u32 \<Rightarrow> traversal \<Rightarrow> fault + traversal" where
  "push v s =
     (if stackPointer s < length (stack s)
      then Inr (s\<lparr> stack := (stack s)[stackPointer s := v], stackPointer := stackPointer s + 1 \<rparr>)
      else Inl OutOfBounds)"

definition pop :: "traversal \<Rightarrow> fault + traversal" where
  "pop s =
     (if 0 < stackPointer s \<and> stackPointer s - 1 < length (stack s)
      then Inr (s\<lparr> stackPointer := stackPointer s - 1,
                    currentIdx := stack s ! (stackPointer s - 1) \<rparr>)
      else Inl OutOfBounds)"

text \<open>One pass through the body of the \<^verbatim>\<open>do ... while (currentIdx != UINT_MAX)\<close> loop.\<close>

definition bvh_step :: "Ray \<Rightarrow> BVHNode list \<Rightarrow> scene \<Rightarrow> traversal \<Rightarrow> fault + traversal" where
  "bvh_step ray bvh scn s =
     (case readAt bvh (unat (currentIdx s)) of
        Inl f \<Rightarrow> Inl f
      | Inr node \<Rightarrow>
          if feq (node_type node) INNER_NODE then
            (let child_A_idx = childA node;
                 child_B_idx = childB node
             in case readAt bvh (unat child_A_idx) of
                  Inl f \<Rightarrow> Inl f
                | Inr nodeA \<Rightarrow>
                    (case readAt bvh (unat child_B_idx) of
                       Inl f \<Rightarrow> Inl f
                     | Inr nodeB \<Rightarrow>
                         (let child_A_box = boundingBox nodeA;
                              child_B_box = boundingBox nodeB;
                              tA = AABBIntersect child_A_box (origin ray) (direction ray);
                              tB = AABBIntersect child_B_box (origin ray) (direction ray);
                              aValid = (fgt tA (Fin 0) \<or> isPointInside child_A_box (origin ray));
                              bValid = (fgt tB (Fin 0) \<or> isPointInside child_B_box (origin ray))
                          in if aValid \<and> bValid
                             then push child_B_idx (s\<lparr> currentIdx := child_A_idx \<rparr>)
                             else if aValid then Inr (s\<lparr> currentIdx := child_A_idx \<rparr>)
                             else if bValid then Inr (s\<lparr> currentIdx := child_B_idx \<rparr>)
                             else pop s)))
          else
            (let (v0, v1, v2, mat) = scn (modelIndex node) (submeshIndex node) (triangleIndex node);
                 contactData = triangleIntersect v0 v1 v2 (origin ray) (direction ray);
                 s' = (if fgt (w4 contactData) (Fin 0)
                          \<and> flt (w4 contactData) (w4 (resContactData s))
                       then s\<lparr> resContactData := contactData, resMaterialIdx := mat \<rparr>
                       else s)
             in pop s'))"

text \<open>The loop.  It ends when the index popped is \<^verbatim>\<open>UINT_MAX\<close>; on a node array with a
  cycle it does not end, so it is a partial function.\<close>

partial_function (option) bvh_loop ::
  "Ray \<Rightarrow> BVHNode list \<Rightarrow> scene \<Rightarrow> traversal \<Rightarrow> (fault + traversal) option" where
  "bvh_loop ray bvh scn s =
     (case bvh_step ray bvh scn s of
        Inl f \<Rightarrow> Some (Inl f)
      | Inr s' \<Rightarrow> if currentIdx s' \<noteq> UINT_MAX then bvh_loop ray bvh scn s' else Some (Inr s'))"

text \<open>\<^verbatim>\<open>bvh_generate_contact\<close>: the stack starts with \<^verbatim>\<open>UINT_MAX\<close> pushed, the best
  distance with \<^verbatim>\<open>FLT_MAX\<close>; a distance still \<^verbatim>\<open>FLT_MAX\<close> at the end becomes 0.  The
  source leaves the other three lanes of \<^verbatim>\<open>resContactData\<close> and the \<^verbatim>\<open>pixelIndex\<close>
  field of the result unset; they are 0 here.\<close>

definition initial_traversal :: "u32 \<Rightarrow> traversal" where
  "initial_traversal rootIdx =
     \<lparr> stack = (replicate 32 0)[0 := UINT_MAX], stackPointer = 1, currentIdx = rootIdx,
       resContactData = vec4 (Fin 0) (Fin 0) (Fin 0) FLT_MAX, resMaterialIdx = 0 \<rparr>"

definition bvh_generate_contact ::
  "Ray \<Rightarrow> BVHNode list \<Rightarrow> u32 \<Rightarrow> scene \<Rightarrow> (fault + Contact) option" where
  "bvh_generate_contact ray bvh rootIdx scn =
     map_option
       (map_sum id
          (\<lambda>s. \<lparr> pixelIndex = 0, materialIndex = resMaterialIdx s,
                 normalAndintersectionDistance =
                   (if feq (w4 (resContactData s)) FLT_MAX
                    then (resContactData s)\<lparr> w4 := Fin 0 \<rparr> else resContactData s) \<rparr>))
       (bvh_loop ray bvh scn (initial_traversal rootIdx))"

text \<open>Whether a child box is worth entering, and the child the specification would enter
  first: the one with the smaller slab-test distance.\<close>

definition childValid :: "Ray \<Rightarrow> AABB \<Rightarrow> bool" where
  "childValid ray box =
     (fgt (AABBIntersect box (origin ray) (direction ray)) (Fin 0)
      \<or> isPointInside box (origin ray))"

definition spec_nearer_child :: "Ray \<Rightarrow> BVHNode list \<Rightarrow> BVHNode \<Rightarrow> u32" where
  "spec_nearer_child ray bvh node =
     (if fle (AABBIntersect (boundingBox (bvh ! unat (childA node))) (origin ray) (direction ray))
             (AABBIntersect (boundingBox (bvh ! unat (childB node))) (origin ray) (direction ray))
      then childA node else childB node)"

text \<open>A three-node hierarchy: leaves 0 and 1 and the root 2 with \<open>child_a = 0\<close>,
  \<open>child_b = 1\<close>.  Leaf 0 spans \<open>z\<close> from 10 to 11, leaf 1 from 1 to 2; the ray leaves the
  origin along \<open>z\<close>.\<close>

definition box_z :: "real \<Rightarrow> real \<Rightarrow> cl_float \<Rightarrow> AABB" where
  "box_z lo hi ty = \<lparr> bounds0 = vec4 (Fin (- 1)) (Fin (- 1)) (Fin lo) ty,
                       bounds1 = vec4 (Fin 1) (Fin 1) (Fin hi) (Fin 0) \<rparr>"

definition bvh3 :: "BVHNode list" where
  "bvh3 = [ \<lparr> data0 = 2, data1 = 0, data2 = 0, data3 = 0, boundingBox = box_z 10 11 LEAF_NODE \<rparr>,
            \<lparr> data0 = 2, data1 = 1, data2 = 0, data3 = 0, boundingBox = box_z 1 2 LEAF_NODE \<rparr>,
            \<lparr> data0 = UINT_MAX, data1 = 0, data2 = 1, data3 = 0,
              boundingBox = box_z 1 11 INNER_NODE \<rparr> ]"

definition ray_z :: Ray where
  "ray_z = \<lparr> idx = 0, origin = vec3 (Fin 0) (Fin 0) (Fin 0),
             direction = vec3 (Fin 0) (Fin 0) (Fin 1) \<rparr>"

definition scene0 :: scene where
  "scene0 = (\<lambda>m sm t. (vec3 (Fin 0) (Fin 0) (Fin 0), vec3 (Fin 0) (Fin 0) (Fin 0),
                        vec3 (Fin 0) (Fin 0) (Fin 0), 0))"


section \<open>Two-level grid construction (\<^verbatim>\<open>AccelerationStructs/TwoLevelGrid.h\<close>)\<close>

text \<open>\<^verbatim>\<open>struct GridData\<close> of \<^verbatim>\<open>TwoLevelGridData.h\<close>.\<close>

record GridData =
  resX :: u32
  resY :: u32
  resZ :: u32
  stepX :: cl_float
  stepY :: cl_float
  stepZ :: cl_float
  leafDensity :: cl_float
  padTo64 :: cl_float
  box :: AABB

text \<open>\<^verbatim>\<open>CL_UINT2\<close> and \<^verbatim>\<open>CL_UINT3\<close>, with \<^verbatim>\<open>convert_uint3\<close>, the \<^verbatim>\<open>min3\<close> of
  \<^verbatim>\<open>CL_UINT3\<close> and \<^verbatim>\<open>operator+(CL_FLOAT3, float)\<close> of \<^verbatim>\<open>CLPortability.h\<close>.\<close>

record uint2 =
  x2 :: u32
  y2 :: u32

record uint3 =
  ux :: u32
  uy :: u32
  uz :: u32

definition convert_uint3 :: "float3 \<Rightarrow> fault + uint3" where
  "convert_uint3 v =
     (case (uint_of_float (x3 v), uint_of_float (y3 v), uint_of_float (z3 v)) of
        (Some a, Some b, Some c) \<Rightarrow> Inr \<lparr> ux = a, uy = b, uz = c \<rparr>
      | _ \<Rightarrow> Inl UndefinedConversion)"

definition min3u :: "uint3 \<Rightarrow> uint3 \<Rightarrow> uint3" where
  "min3u a b = \<lparr> ux = min (ux a) (ux b), uy = min (uy a) (uy b), uz = min (uz a) (uz b) \<rparr>"

definition add3s :: "float3 \<Rightarrow> cl_float \<Rightarrow> float3" where
  "add3s a s = vec3 (fadd (x3 a) s) (fadd (y3 a) s) (fadd (z3 a) s)"

text \<open>\<^verbatim>\<open>getCellIndex\<close>, in \<^verbatim>\<open>CL_UINT\<close> arithmetic.\<close>

definition getCellIndex :: "u32 \<Rightarrow> u32 \<Rightarrow> u32 \<Rightarrow> u32 \<Rightarrow> u32 \<Rightarrow> u32 \<Rightarrow> u32" where
  "getCellIndex ix iy iz rx ry rz = iz * rx * ry + iy * rx + ix"

text \<open>The two vectors both functions build from the grid: the low corner of its box and
  its cell size.\<close>

definition bboxOrigin :: "GridData \<Rightarrow> float3" where
  "bboxOrigin grid = vec3 (x4 (bounds0 (box grid))) (y4 (bounds0 (box grid))) (z4 (bounds0 (box grid)))"

definition gridStep :: "GridData \<Rightarrow> float3" where
  "gridStep grid = vec3 (stepX grid) (stepY grid) (stepZ grid)"

text \<open>\<^verbatim>\<open>countOverlappingCells\<close>: everything is computed in \<^verbatim>\<open>float\<close>, and the product
  is converted to \<^verbatim>\<open>CL_UINT\<close> by the \<^verbatim>\<open>return\<close>.\<close>

definition countOverlappingCells :: "float3 \<Rightarrow> float3 \<Rightarrow> float3 \<Rightarrow> GridData \<Rightarrow> fault + u32" where
  "countOverlappingCells v0 v1 v2 grid =
     (let lastIndices = vec3 (float_of_uint (resX grid - 1)) (float_of_uint (resY grid - 1))
                             (float_of_uint (resZ grid - 1));
          startCells = min3 (floor3 (div3 (sub3 (min3 v0 (min3 v1 v2)) (bboxOrigin grid))
                                          (gridStep grid))) lastIndices;
          endCells = min3 (floor3 (div3 (sub3 (max3 v0 (max3 v1 v2)) (bboxOrigin grid))
                                        (gridStep grid))) lastIndices;
          cells = add3s (sub3 endCells startCells) (Fin 1)
      in case uint_of_float (fmul (fmul (x3 cells) (y3 cells)) (z3 cells)) of
           Some n \<Rightarrow> Inr n
         | None \<Rightarrow> Inl UndefinedConversion)"

text \<open>The first and the last cell of \<^verbatim>\<open>writeOverlappingPairs\<close>, its locals \<^verbatim>\<open>cell\<close> and
  \<^verbatim>\<open>cellExtents\<close>: the cell of the least and of the greatest corner of the triangle's
  box, each coordinate at most \<^verbatim>\<open>res - 1\<close>.\<close>

definition maxGridIdx :: "GridData \<Rightarrow> uint3" where
  "maxGridIdx grid = \<lparr> ux = resX grid - 1, uy = resY grid - 1, uz = resZ grid - 1 \<rparr>"

definition cell :: "float3 \<Rightarrow> float3 \<Rightarrow> float3 \<Rightarrow> GridData \<Rightarrow> fault + uint3" where
  "cell v0 v1 v2 grid =
     map_sum id (\<lambda>c. min3u c (maxGridIdx grid))
       (convert_uint3 (floor3 (div3 (sub3 (min3 v0 (min3 v1 v2)) (bboxOrigin grid))
                                    (gridStep grid))))"

definition cellExtents :: "float3 \<Rightarrow> float3 \<Rightarrow> float3 \<Rightarrow> GridData \<Rightarrow> fault + uint3" where
  "cellExtents v0 v1 v2 grid =
     map_sum id (\<lambda>c. min3u c (maxGridIdx grid))
       (convert_uint3 (floor3 (div3 (sub3 (max3 v0 (max3 v1 v2)) (bboxOrigin grid))
                                    (gridStep grid))))"

text \<open>The three nested loops of \<^verbatim>\<open>writeOverlappingPairs\<close>, innermost first.  The state
  is the pairs array and \<^verbatim>\<open>cellCounter\<close>.  The counters are \<^verbatim>\<open>CL_UINT\<close>s: with a last
  cell of \<^verbatim>\<open>UINT_MAX\<close> a loop never ends, so the loops are partial functions.\<close>

partial_function (option) writeX ::
  "GridData \<Rightarrow> u32 \<Rightarrow> u32 \<Rightarrow> u32 \<Rightarrow> u32 \<Rightarrow> u32 \<Rightarrow> u32 \<Rightarrow> uint2 list \<Rightarrow> u32
   \<Rightarrow> (fault + uint2 list \<times> u32) option" where
  "writeX grid firstPairIdx triangleIdx z y x ex pairsArray cellCounter =
     (if x \<le> ex then
        (if unat (firstPairIdx + cellCounter) < length pairsArray
         then writeX grid firstPairIdx triangleIdx z y (x + 1) ex
                (pairsArray[unat (firstPairIdx + cellCounter) :=
                   \<lparr> x2 = getCellIndex x y z (resX grid) (resY grid) (resZ grid),
                     y2 = triangleIdx \<rparr>])
                (cellCounter + 1)
         else Some (Inl OutOfBounds))
      else Some (Inr (pairsArray, cellCounter)))"

partial_function (option) writeY ::
  "GridData \<Rightarrow> u32 \<Rightarrow> u32 \<Rightarrow> u32 \<Rightarrow> u32 \<Rightarrow> u32 \<Rightarrow> u32 \<Rightarrow> u32 \<Rightarrow> uint2 list \<Rightarrow> u32
   \<Rightarrow> (fault + uint2 list \<times> u32) option" where
  "writeY grid firstPairIdx triangleIdx z y ey cx ex pairsArray cellCounter =
     (if y \<le> ey then
        (case writeX grid firstPairIdx triangleIdx z y cx ex pairsArray cellCounter of
           None \<Rightarrow> None
         | Some (Inl f) \<Rightarrow> Some (Inl f)
         | Some (Inr (ps, n)) \<Rightarrow> writeY grid firstPairIdx triangleIdx z (y + 1) ey cx ex ps n)
      else Some (Inr (pairsArray, cellCounter)))"

partial_function (option) writeZ ::
  "GridData \<Rightarrow> u32 \<Rightarrow> u32 \<Rightarrow> u32 \<Rightarrow> u32 \<Rightarrow> u32 \<Rightarrow> u32 \<Rightarrow> u32 \<Rightarrow> u32 \<Rightarrow> uint2 list \<Rightarrow> u32
   \<Rightarrow> (fault + uint2 list \<times> u32) option" where
  "writeZ grid firstPairIdx triangleIdx z ez cy ey cx ex pairsArray cellCounter =
     (if z \<le> ez then
        (case writeY grid firstPairIdx triangleIdx z cy ey cx ex pairsArray cellCounter of
           None \<Rightarrow> None
         | Some (Inl f) \<Rightarrow> Some (Inl f)
         | Some (Inr (ps, n)) \<Rightarrow> writeZ grid firstPairIdx triangleIdx (z + 1) ez cy ey cx ex ps n)
      else Some (Inr (pairsArray, cellCounter)))"

text \<open>\<^verbatim>\<open>writeOverlappingPairs\<close>: the pairs array after the call.\<close>

definition writeOverlappingPairs ::
  "float3 \<Rightarrow> float3 \<Rightarrow> float3 \<Rightarrow> GridData \<Rightarrow> u32 \<Rightarrow> u32 \<Rightarrow> uint2 list
   \<Rightarrow> (fault + uint2 list) option" where
  "writeOverlappingPairs v0 v1 v2 grid firstPairIdx triangleIdx pairsArray =
     (case cell v0 v1 v2 grid of
        Inl f \<Rightarrow> Some (Inl f)
      | Inr c \<Rightarrow>
          (case cellExtents v0 v1 v2 grid of
             Inl f \<Rightarrow> Some (Inl f)
           | Inr e \<Rightarrow>
               map_option (map_sum id fst)
                 (writeZ grid firstPairIdx triangleIdx (uz c) (uz e) (uy c) (uy e) (ux c) (ux e)
                    pairsArray 0)))"

text \<open>\<^verbatim>\<open>writePairs\<close>.  The scene buffer is read through \<^verbatim>\<open>getTriangleRefByIndex\<close>, which
  gives the model, the submesh and the index in the submesh of a triangle of the scene, and
  through the vertex accessors; \<open>triIndex\<close> is the parameter \<^verbatim>\<open>triangleIndex\<close>.\<close>

type_synonym triangle_refs = "u32 \<Rightarrow> u32 \<times> u32 \<times> u32"

definition writePairs ::
  "triangle_refs \<Rightarrow> scene \<Rightarrow> u32 \<Rightarrow> GridData \<Rightarrow> u32 list \<Rightarrow> u32 list \<Rightarrow> uint2 list
   \<Rightarrow> (fault + uint2 list) option" where
  "writePairs getTriangleRefByIndex scn triIndex grid prefixSum counters pairs =
     (let (m, sm, t) = getTriangleRefByIndex triIndex;
          (v0, v1, v2, mat) = scn m sm t
      in case readAt prefixSum (unat triIndex) of
           Inl f \<Rightarrow> Some (Inl f)
         | Inr p \<Rightarrow>
             (case readAt counters (unat triIndex) of
                Inl f \<Rightarrow> Some (Inl f)
              | Inr c \<Rightarrow>
                  (let myStart = p - c
                   in writeOverlappingPairs v0 v1 v2 grid myStart triIndex pairs)))"

text \<open>The cells from \<open>a\<close> to \<open>b\<close>, and the pairs of a triangle: one for each cell from the
  first to the last, \<open>x\<close> running fastest, then \<open>y\<close>, then \<open>z\<close>.\<close>

definition cells_between :: "u32 \<Rightarrow> u32 \<Rightarrow> u32 list" where
  "cells_between a b = map of_nat [unat a ..< Suc (unat b)]"

definition row_pairs :: "GridData \<Rightarrow> u32 \<Rightarrow> u32 \<Rightarrow> u32 \<Rightarrow> u32 \<Rightarrow> u32 \<Rightarrow> uint2 list" where
  "row_pairs grid t z y cx ex =
     map (\<lambda>x. \<lparr> x2 = getCellIndex x y z (resX grid) (resY grid) (resZ grid), y2 = t \<rparr>)
       (cells_between cx ex)"

definition slice_pairs :: "GridData \<Rightarrow> u32 \<Rightarrow> u32 \<Rightarrow> u32 \<Rightarrow> u32 \<Rightarrow> u32 \<Rightarrow> u32 \<Rightarrow> uint2 list" where
  "slice_pairs grid t z cy ey cx ex =
     concat (map (\<lambda>y. row_pairs grid t z y cx ex) (cells_between cy ey))"

definition triangle_pairs :: "GridData \<Rightarrow> u32 \<Rightarrow> uint3 \<Rightarrow> uint3 \<Rightarrow> uint2 list" where
  "triangle_pairs grid t c e =
     concat (map (\<lambda>z. slice_pairs grid t z (uy c) (uy e) (ux c) (ux e))
               (cells_between (uz c) (uz e)))"

text \<open>A grid of 2 by 2 by 1 unit cells with a triangle over its four cells, in a scene
  whose every triangle is that one; and a grid of 4099 by 4099 by 3 unit cells with a
  triangle that spans the cells 1 to 4097 in \<open>x\<close> and \<open>y\<close> of the layer \<open>z = 1\<close>.\<close>

definition unit_grid :: "u32 \<Rightarrow> u32 \<Rightarrow> u32 \<Rightarrow> GridData" where
  "unit_grid rx ry rz =
     \<lparr> resX = rx, resY = ry, resZ = rz, stepX = Fin 1, stepY = Fin 1, stepZ = Fin 1,
       leafDensity = Fin 1, padTo64 = Fin 0,
       box = \<lparr> bounds0 = vec4 (Fin 0) (Fin 0) (Fin 0) (Fin 0),
               bounds1 = vec4 (Fin (real (unat rx))) (Fin (real (unat ry))) (Fin (real (unat rz)))
                              (Fin 0) \<rparr> \<rparr>"

definition small_v0 :: float3 where "small_v0 = vec3 (Fin 0) (Fin 0) (Fin 0)"
definition small_v1 :: float3 where "small_v1 = vec3 (Fin 1) (Fin 0) (Fin 0)"
definition small_v2 :: float3 where "small_v2 = vec3 (Fin 0) (Fin 1) (Fin 0)"

definition small_scene :: scene where
  "small_scene = (\<lambda>m sm t. (small_v0, small_v1, small_v2, 0))"

definition refs0 :: triangle_refs where
  "refs0 = (\<lambda>g. (0, 0, g))"

definition wide_v0 :: float3 where "wide_v0 = vec3 (Fin 1) (Fin 1) (Fin 1)"
definition wide_v1 :: float3 where "wide_v1 = vec3 (Fin 4097) (Fin 1) (Fin 1)"
definition wide_v2 :: float3 where "wide_v2 = vec3 (Fin 1) (Fin 4097) (Fin 1)"

definition free_pairs :: "nat \<Rightarrow> uint2 list" where
  "free_pairs n = replicate n \<lparr> x2 = 0, y2 = 0 \<rparr>"


section \<open>Triangle and box overlap (\<^verbatim>\<open>Primitives/AABB.h\<close>)\<close>









section \<open>Leaf pairs of the two-level grid (\<^verbatim>\<open>TwoLevelGrid.h\<close>)\<close>























section \<open>Properties of the prefix sum\<close>

lemma unat_eq_pow: "k < 64 \<Longrightarrow> (unat (x::u64) = 2 ^ k) = (x = 2 ^ k)"
proof
  assume k: "k < 64" and "unat x = 2 ^ k"
  then have "word_of_nat (unat x) = (word_of_nat (2 ^ k) :: u64)" by simp
  then show "x = 2 ^ k" by simp
next
  assume k: "k < 64" and x: "x = 2 ^ k"
  have "(2::nat) ^ k < 2 ^ 64" using k by (intro power_strict_increasing) auto
  then have "unat (word_of_nat (2 ^ k) :: u64) = 2 ^ k"
    by (intro of_nat_inverse) auto
  then show "unat x = 2 ^ k" using x by simp
qed

lemma power_of_two_iff: "power_of_two (unat (x::u64)) = (\<exists>k<64. x = 2 ^ k)"
proof -
  have "power_of_two (unat x) = (\<exists>k<64. unat x = 2 ^ k)"
    unfolding power_of_two_def list_ex_iff by auto
  then show ?thesis using unat_eq_pow by metis
qed

lemma isPowerOfTwo_exp: "isPowerOfTwo x = (x = 0 \<or> (\<exists>k<64. x = 2 ^ k))"
proof (cases "x = 0 \<or> x = 1")
  case True
  then show ?thesis using isPowerOfTwo_def by (auto intro: exI[of _ 0])
next
  case False
  then have "isPowerOfTwo x = (\<exists>k\<in>{1..<64}. 2 ^ k = x)"
    unfolding isPowerOfTwo_def list_ex_iff push_bit_eq_mult by simp
  also have "\<dots> = (\<exists>k<64. x = 2 ^ k)"
  proof
    assume "\<exists>k\<in>{1..<64}. 2 ^ k = x" then show "\<exists>k<64. x = 2 ^ k" by auto
  next
    assume "\<exists>k<64. x = 2 ^ k"
    then obtain k where k: "k < 64" "x = 2 ^ k" by blast
    with False have "k \<noteq> 0" by (intro notI) simp
    with k show "\<exists>k\<in>{1..<64}. 2 ^ k = x" by (intro bexI[of _ k]) auto
  qed
  finally show ?thesis using False by simp
qed

lemma isPowerOfTwo_iff: "isPowerOfTwo x \<longleftrightarrow> x = 0 \<or> power_of_two (unat x)"
  by (simp add: isPowerOfTwo_exp power_of_two_iff)

text \<open>
  Claim C7, as the code has it.  \<^verbatim>\<open>computePrefixSum\<close> returns \<^verbatim>\<open>Error\<close>, with the
  error record filled and no kernel launched, when the size is neither zero nor a power of
  two, and when \<^verbatim>\<open>(_maxWorkgroupSize << 1) * sizeof(CL_INT)\<close> (in \<^verbatim>\<open>size_t\<close>
  arithmetic) exceeds the local memory of the device.  When the size is zero or a power of
  two and the local memory suffices, the call is the scan loop started at offset 1; so a
  call that launched a kernel passed both checks.
\<close>

theorem computePrefixSum_configuration_errors:
  "(\<not> (sz = 0 \<or> power_of_two (unat sz)) \<longrightarrow>
      computePrefixSum dev ps inputBuf outputBuf sz err =
        Some (Error, FILL_ERRATA ''PrefixSum::computePrefixSum''
                ''Input size must be adjusted to power of 2'', ps, []))
   \<and> ((sz = 0 \<or> power_of_two (unat sz))
        \<and> push_bit 1 (maxWorkgroupSize ps) * 4 > deviceLocalMemory ps \<longrightarrow>
      computePrefixSum dev ps inputBuf outputBuf sz err =
        Some (Error, FILL_ERRATA ''PrefixSum::computePrefixSum''
                ''Insufficient Local Memory'', ps, []))
   \<and> ((sz = 0 \<or> power_of_two (unat sz))
        \<and> push_bit 1 (maxWorkgroupSize ps) * 4 \<le> deviceLocalMemory ps \<longrightarrow>
      computePrefixSum dev ps inputBuf outputBuf sz err =
        map_option (\<lambda>(r, e, tr). (r, e, ps\<lparr> outputBuffer := outputBuf, inputBuffer := inputBuf \<rparr>, tr))
          (scanLoop dev (ps\<lparr> outputBuffer := outputBuf, inputBuffer := inputBuf \<rparr>) sz
             (push_bit 1 (maxWorkgroupSize ps)) 1 err []))
   \<and> (\<forall>r e ps' tr. computePrefixSum dev ps inputBuf outputBuf sz err = Some (r, e, ps', tr)
         \<and> tr \<noteq> [] \<longrightarrow>
       (sz = 0 \<or> power_of_two (unat sz))
         \<and> push_bit 1 (maxWorkgroupSize ps) * 4 \<le> deviceLocalMemory ps)"
proof (cases "sz = 0 \<or> power_of_two (unat sz)")
  case False
  then have "\<not> isPowerOfTwo sz" by (simp add: isPowerOfTwo_iff)
  then have "computePrefixSum dev ps inputBuf outputBuf sz err =
        Some (Error, FILL_ERRATA ''PrefixSum::computePrefixSum''
                ''Input size must be adjusted to power of 2'', ps, [])"
    by (simp add: computePrefixSum_def)
  with False show ?thesis by simp
next
  case True
  then have ok: "isPowerOfTwo sz" by (simp add: isPowerOfTwo_iff)
  show ?thesis
  proof (cases "push_bit 1 (maxWorkgroupSize ps) * 4 > deviceLocalMemory ps")
    case big: True
    then have "computePrefixSum dev ps inputBuf outputBuf sz err =
        Some (Error, FILL_ERRATA ''PrefixSum::computePrefixSum''
                ''Insufficient Local Memory'', ps, [])"
      using ok by (simp add: computePrefixSum_def Let_def)
    moreover from big have "\<not> push_bit 1 (maxWorkgroupSize ps) * 4 \<le> deviceLocalMemory ps"
      by (simp only: not_le)
    ultimately show ?thesis using True big by simp
  next
    case small: False
    then have "computePrefixSum dev ps inputBuf outputBuf sz err =
        map_option (\<lambda>(r, e, tr). (r, e, ps\<lparr> outputBuffer := outputBuf, inputBuffer := inputBuf \<rparr>, tr))
          (scanLoop dev (ps\<lparr> outputBuffer := outputBuf, inputBuffer := inputBuf \<rparr>) sz
             (push_bit 1 (maxWorkgroupSize ps)) 1 err [])"
      using ok by (simp add: computePrefixSum_def Let_def)
    moreover from small have "push_bit 1 (maxWorkgroupSize ps) * 4 \<le> deviceLocalMemory ps"
      by (simp only: not_less)
    ultimately show ?thesis using True small by simp
  qed
qed

theorem computePrefixSum_configuration_errors_witness:
  "computePrefixSum dev0 ps0 1 2 3 err0 =
     Some (Error, FILL_ERRATA ''PrefixSum::computePrefixSum''
             ''Input size must be adjusted to power of 2'', ps0, [])
   \<and> computePrefixSum dev0 ps1 1 2 8 err0 =
     Some (Error, FILL_ERRATA ''PrefixSum::computePrefixSum''
             ''Insufficient Local Memory'', ps1, [])
   \<and> computePrefixSum dev0 ps0 1 2 8 err0 =
     Some (Success, err0, ps0\<lparr> outputBuffer := 2, inputBuffer := 1 \<rparr>,
       [\<lparr> kernel = ''group_prefixSum'', scalarArgs = [1, 8, 2048],
          globalDim = 256, localDim = 256 \<rparr>])"
proof -
  have p3: "\<not> power_of_two (unat (3::u64))" and p8: "power_of_two (unat (8::u64))"
    by (simp_all add: power_of_two_def upt_rec)
  have loop: "scanLoop dev0 (ps0\<lparr> outputBuffer := 2, inputBuffer := 1 \<rparr>) 8
                (push_bit 1 (maxWorkgroupSize ps0)) 1 err0 [] =
              Some (Success, err0,
                [\<lparr> kernel = ''group_prefixSum'', scalarArgs = [1, 8, 2048],
                   globalDim = 256, localDim = 256 \<rparr>])"
    apply (subst scanLoop.simps)
    apply (simp add: invokeGroupKernel_def runKernel_def dev0_def ps0_def)
    apply (subst scanLoop.simps)
    apply simp
    done
  note t3 = computePrefixSum_configuration_errors [of 3 dev0 ps0 1 2 err0]
  note t8 = computePrefixSum_configuration_errors [of 8 dev0 ps1 1 2 err0]
  note t8' = computePrefixSum_configuration_errors [of 8 dev0 ps0 1 2 err0]
  have c1: "computePrefixSum dev0 ps0 1 2 3 err0 =
     Some (Error, FILL_ERRATA ''PrefixSum::computePrefixSum''
             ''Input size must be adjusted to power of 2'', ps0, [])"
    using conjunct1 [OF t3] p3 by simp
  have "deviceLocalMemory ps1 < push_bit 1 (maxWorkgroupSize ps1) * 4"
    by (simp add: ps1_def)
  with p8 have c2: "computePrefixSum dev0 ps1 1 2 8 err0 =
     Some (Error, FILL_ERRATA ''PrefixSum::computePrefixSum''
             ''Insufficient Local Memory'', ps1, [])"
    using conjunct1 [OF conjunct2 [OF t8]] by simp
  have "push_bit 1 (maxWorkgroupSize ps0) * 4 \<le> deviceLocalMemory ps0"
    by (simp add: ps0_def)
  with p8 have "computePrefixSum dev0 ps0 1 2 8 err0 =
        map_option (\<lambda>(r, e, tr). (r, e, ps0\<lparr> outputBuffer := 2, inputBuffer := 1 \<rparr>, tr))
          (scanLoop dev0 (ps0\<lparr> outputBuffer := 2, inputBuffer := 1 \<rparr>) 8
             (push_bit 1 (maxWorkgroupSize ps0)) 1 err0 [])"
    using conjunct1 [OF conjunct2 [OF conjunct2 [OF t8']]] by simp
  then have c3: "computePrefixSum dev0 ps0 1 2 8 err0 =
     Some (Success, err0, ps0\<lparr> outputBuffer := 2, inputBuffer := 1 \<rparr>,
       [\<lparr> kernel = ''group_prefixSum'', scalarArgs = [1, 8, 2048],
          globalDim = 256, localDim = 256 \<rparr>])"
    by (simp only: loop option.map prod.case)
  from c1 c2 c3 show ?thesis by (intro conjI)
qed

text \<open>
  Claim C7 as the specification words it fails at size 0: zero is not a power of two, yet
  \<^verbatim>\<open>isPowerOfTwo\<close> accepts it, the checks pass, the loop body never runs and the call
  returns \<^verbatim>\<open>Success\<close>.
\<close>

theorem computePrefixSum_size_zero_counterexample:
  "\<not> power_of_two (unat (0::u64))
   \<and> computePrefixSum dev0 ps0 1 2 0 err0 =
       Some (Success, err0, ps0\<lparr> outputBuffer := 2, inputBuffer := 1 \<rparr>, [])"
proof -
  have "\<not> power_of_two (unat (0::u64))"
    by (simp add: power_of_two_def list_ex_iff)
  moreover have "computePrefixSum dev0 ps0 1 2 0 err0 =
       Some (Success, err0, ps0\<lparr> outputBuffer := 2, inputBuffer := 1 \<rparr>, [])"
    by (simp add: computePrefixSum_def isPowerOfTwo_def ps0_def scanLoop.simps)
  ultimately show ?thesis by simp
qed

section \<open>Properties of the bitonic sort\<close>





lemma int_div_le: "0 \<le> a \<Longrightarrow> 0 \<le> b \<Longrightarrow> a div b \<le> (a::int)"
proof (cases "b = 0")
  case True
  assume "0 \<le> a" then show ?thesis using True by simp
next
  case False
  assume "0 \<le> a" "0 \<le> b"
  then have "a div b \<le> a div 1" using False by (intro zdiv_mono2) auto
  then show ?thesis by simp
qed




















section \<open>Facts about the rounding\<close>

lemma nbits_0: "nbits 0 = 0"
  by (simp add: nbits.simps)

lemma nbits_pos: "0 < n \<Longrightarrow> nbits n = Suc (nbits (n div 2))"
  by (subst nbits.simps) simp

lemma nbits_bounds: "0 < n \<Longrightarrow> 2 ^ (nbits n - 1) \<le> n \<and> n < 2 ^ nbits n"
proof (induction n rule: nbits.induct)
  case (1 n)
  show ?case
  proof (cases "n div 2 = 0")
    case True
    with "1.prems" have "n = 1" by (simp add: div_eq_0_iff) 
    then show ?thesis by (simp add: nbits_pos nbits_0)
  next
    case False
    then have pos: "0 < n div 2" by simp
    from "1.IH" [OF _ pos] "1.prems"
    have ih: "2 ^ (nbits (n div 2) - 1) \<le> n div 2" "n div 2 < 2 ^ nbits (n div 2)" by auto
    have b: "nbits n = Suc (nbits (n div 2))" using "1.prems" by (rule nbits_pos)
    have b1: "0 < nbits (n div 2)" using pos by (simp add: nbits_pos)
    then have "(2::nat) ^ nbits (n div 2) = 2 * 2 ^ (nbits (n div 2) - 1)"
      by (cases "nbits (n div 2)") auto
    with ih(1) have lo: "2 ^ nbits (n div 2) \<le> n" by linarith
    from ih(2) have hi: "n < 2 * 2 ^ nbits (n div 2)" by linarith
    show ?thesis using lo hi by (simp add: b)
  qed
qed

lemma pow2_pos: "0 < pow2 e"
  by (simp add: pow2_def)

lemma pow2_sub23: "pow2 (e - 23) = pow2 e / 2 ^ 23"
proof -
  have "pow2 e = 2 powi e" for e
    by (simp add: pow2_def power_int_def inverse_eq_divide power_one_over)
  then show ?thesis
    by (simp add: power_int_diff)
qed

lemma expo_lower: "0 < a \<Longrightarrow> pow2 (expo a) \<le> a"
proof (cases "1 \<le> a")
  case True
  let ?n = "nat \<lfloor>a\<rfloor>"
  from True have n: "0 < ?n" by simp
  have "2 ^ (nbits ?n - 1) \<le> ?n" using nbits_bounds [OF n] by simp
  then have "(2::real) ^ (nbits ?n - 1) \<le> real ?n"
    by (metis of_nat_le_iff of_nat_numeral of_nat_power)
  also have "\<dots> \<le> a" using True by (simp add: of_nat_floor)
  finally have le: "(2::real) ^ (nbits ?n - 1) \<le> a" .
  have "0 < nbits ?n" using n by (simp add: nbits_pos)
  then have "nat (int (nbits ?n) - 1) = nbits ?n - 1" by simp
  then show ?thesis using True le by (simp add: expo_def pow2_def)
next
  case False
  assume a: "0 < a"
  with False have a1: "a < 1" by simp
  let ?m = "\<lceil>1 / a\<rceil>"
  let ?n = "nat (?m - 1)"
  have "1 < 1 / a" using a a1 by simp
  then have m2: "2 \<le> ?m" by (simp add: le_ceiling_iff) 
  then have n: "0 < ?n" by simp
  have "?n < 2 ^ nbits ?n" using nbits_bounds [OF n] by simp
  then have "int ?n < int (2 ^ nbits ?n)" by (simp only: of_nat_less_iff)
  then have "int ?n < 2 ^ nbits ?n" by simp
  moreover have "int ?n = ?m - 1" using m2 by (intro nat_0_le) linarith
  ultimately have "?m \<le> 2 ^ nbits ?n" by linarith
  then have "real_of_int ?m \<le> 2 ^ nbits ?n"
    by (metis of_int_le_iff of_int_numeral of_int_power)
  moreover have "1 / a \<le> real_of_int ?m" by (rule le_of_int_ceiling)
  ultimately have "1 / a \<le> 2 ^ nbits ?n" by linarith
  then have "1 \<le> 2 ^ nbits ?n * a" using a by (simp add: pos_divide_le_eq)
  then have le: "1 / 2 ^ nbits ?n \<le> a" by (simp add: pos_divide_le_eq mult.commute)
  have bl: "0 < nbits ?n" using n by (simp add: nbits_pos)
  show ?thesis using False le bl by (simp add: expo_def pow2_def)
qed

lemma rhe_floor: "\<lfloor>y\<rfloor> \<le> rhe y"
  by (simp add: rhe_def Let_def)

lemma rhe_of_int: "rhe (of_int m) = m"
  by (simp add: rhe_def Let_def)

text \<open>A value in the normal range does not round to zero.\<close>

lemma round32_nonzero:
  assumes "1 / 2 ^ 126 \<le> y"
  shows "round32 y \<noteq> Fin 0"
proof -
  have "(0::real) < 1 / 2 ^ 126" by simp
  with assms have y: "0 < y" by linarith
  define e where "e = max (expo y) (- 126)"
  define u where "u = pow2 (e - 23)"
  have "pow2 e \<le> y"
  proof (cases "expo y \<le> - 126")
    case True
    then have "e = - 126" by (simp add: e_def)
    then show ?thesis using assms by (simp add: pow2_def)
  next
    case False
    then have "e = expo y" by (simp add: e_def)
    then show ?thesis using expo_lower [OF y] by simp
  qed
  then have "u * 2 ^ 23 \<le> y" by (simp add: u_def pow2_sub23)
  moreover have u: "0 < u" by (simp add: u_def pow2_pos)
  ultimately have "2 ^ 23 \<le> y / u" by (simp add: pos_le_divide_eq mult.commute)
  then have "2 ^ 23 \<le> \<lfloor>y / u\<rfloor>" by (simp add: le_floor_iff)
  moreover have "(0::int) < 2 ^ 23" by simp
  ultimately have "0 < rhe (y / u)" using rhe_floor [of "y / u"] by linarith
  then have r: "0 < of_int (rhe (y / u)) * u" using u by simp
  have "round32 y = (if 2 ^ 128 \<le> of_int (rhe (y / u)) * u then PInf
                     else Fin (of_int (rhe (y / u)) * u))"
    using y by (simp add: round32_def Let_def e_def u_def)
  then show ?thesis using r by auto
qed

text \<open>Integers of fewer than 25 bits are binary32 values.\<close>

lemma round32_of_int:
  assumes "\<bar>n\<bar> < 2 ^ 24"
  shows "round32 (of_int n) = Fin (of_int n)"
proof (cases "n = 0")
  case True
  then show ?thesis by (simp add: round32_def)
next
  case False
  define a :: real where "a = \<bar>of_int n\<bar>"
  define k where "k = nat \<bar>n\<bar>"
  have a_k: "a = real k" by (simp add: a_def k_def)
  have k: "0 < k" "k < 2 ^ 24" using False assms by (auto simp: k_def nat_less_iff)
  have a1: "1 \<le> a" using k by (simp add: a_k)
  have fl: "nat \<lfloor>a\<rfloor> = k" by (simp add: a_k)
  have "2 ^ (nbits k - 1) \<le> k" using nbits_bounds [OF k(1)] by simp
  then have "(2::nat) ^ (nbits k - 1) < 2 ^ 24" using k(2) by linarith
  then have "nbits k - 1 < 24"
    using power_less_imp_less_exp [of "2::nat" "nbits k - 1" 24] by simp
  moreover have bl: "0 < nbits k" using k by (simp add: nbits_pos)
  ultimately have b24: "nbits k \<le> 24" by linarith
  define e where "e = max (expo a) (- 126)"
  have ex: "expo a = int (nbits k) - 1" using a1 fl by (simp add: expo_def)
  then have e: "e = int (nbits k) - 1" using bl by (simp add: e_def)
  define d where "d = 24 - nbits k"
  have "e - 23 = - int d" using b24 by (simp add: e d_def)
  then have u: "pow2 (e - 23) = 1 / 2 ^ d"
    by (cases "d = 0") (simp_all add: pow2_def)
  have "real k * 2 ^ d = of_int (int (k * 2 ^ d))" by simp
  then have rh: "rhe (real k * 2 ^ d) = int (k * 2 ^ d)"
    by (simp only: rhe_of_int)
  have r: "of_int (rhe (a / pow2 (e - 23))) * pow2 (e - 23) = a"
    by (simp add: rh u a_k)
  have "a < 2 ^ 24" using k by (simp add: a_k)
  moreover have "(2::real) ^ 24 \<le> 2 ^ 128" by (intro power_increasing) auto
  ultimately have small: "\<not> 2 ^ 128 \<le> a" by linarith
  have nz: "(of_int n :: real) \<noteq> 0" using False by simp
  have "round32 (of_int n) =
      (if 2 ^ 128 \<le> a then (if 0 < real_of_int n then PInf else NInf)
       else Fin (if 0 < real_of_int n then a else - a))"
    unfolding round32_def Let_def a_def [symmetric] e_def [symmetric] r
    using nz by (simp only: if_False)
  then have "round32 (of_int n) = Fin (if 0 < real_of_int n then a else - a)"
    using small by (simp only: if_False)
  moreover have "(if 0 < real_of_int n then a else - a) = real_of_int n"
    unfolding a_def by (simp only: abs_if split: if_splits) auto
  ultimately show ?thesis by (simp only:)
qed

text \<open>Rounding a given value, step by step: exponent, spacing, rounded significand.\<close>

lemma round32_steps:
  assumes "0 < x" and "expo x = e" and "- 126 \<le> e" and "pow2 (e - 23) = u"
    and "rhe (x / u) = m" and "of_int m * u = r" and "r < 2 ^ 128"
  shows "round32 x = Fin r"
proof -
  have m: "max (expo x) (- 126) = e" using assms(2,3) by simp
  have a: "\<bar>x\<bar> = x" using assms(1) by simp
  show ?thesis
    unfolding round32_def Let_def a m assms(4) assms(5) assms(6)
    using assms(1,7) by simp
qed

lemma round32_epsilon: "round32 (1 / 8388608) = Fin (1 / 8388608)"
  by (rule round32_steps [where e = "- 23" and u = "1 / 2 ^ 46" and m = "2 ^ 23"])
     (simp_all add: expo_def nbits.simps pow2_def rhe_def Let_def)

lemma round32_4_plus_epsilon: "round32 (33554433 / 8388608) = Fin 4"
  by (rule round32_steps [where e = 2 and u = "1 / 2 ^ 21" and m = "2 ^ 23"])
     (simp_all add: expo_def nbits.simps pow2_def rhe_def Let_def)

lemma round32_4_minus_epsilon: "round32 (33554431 / 8388608) = Fin 4"
  by (rule round32_steps [where e = 1 and u = "1 / 2 ^ 22" and m = "2 ^ 24"])
     (simp_all add: expo_def nbits.simps pow2_def rhe_def Let_def)

lemma round32_0 [simp]: "round32 0 = Fin 0"
  by (simp add: round32_def)

lemma round32_1 [simp]: "round32 1 = Fin 1"
  using round32_of_int [of 1] by simp

lemma round32_numeral [simp]:
  "(numeral k :: int) < 2 ^ 24 \<Longrightarrow> round32 (numeral k) = Fin (numeral k)"
  using round32_of_int [of "numeral k"] by simp

lemma round32_neg_numeral [simp]:
  "(numeral k :: int) < 2 ^ 24 \<Longrightarrow> round32 (- numeral k) = Fin (- numeral k)"
  using round32_of_int [of "- numeral k"] by simp

declare round32_epsilon [simp]

section \<open>Properties of the primitives\<close>

lemma round32_neg_1 [simp]: "round32 (- 1) = Fin (- 1)"
  using round32_of_int [of "- 1"] by simp

lemmas vec_simps = vec3_def vec4_def sub3_def add3_def min3_def max3_def cross_def dot_def
  fmin_def fmax_def fgt_def fge_def fle_def fsub_def signed_inf_def float_of_bool_def
  float_of_uint_def

text \<open>
  Claim C8 fails on the code.  For the triangle \<open>(4,0,0), (4,1,0), (4,0,1)\<close> the raw
  extent in \<open>x\<close> is 0, the axis is flagged flat, and \<open>4 + FLT_EPSILON\<close> and
  \<open>4 - FLT_EPSILON\<close> both round back to 4: the box returned has \<open>bounds[1].x -
  bounds[0].x = 0\<close>, a flat plane.
\<close>

theorem calculateTriangleAABB_flat_at_4:
  "calculateTriangleAABB flat_v1 flat_v2 flat_v3 =
     \<lparr> bounds0 = vec4 (Fin 4) (Fin 0) (Fin 0) (Fin 0),
       bounds1 = vec4 (Fin 4) (Fin 1) (Fin 1) (Fin 0) \<rparr>
   \<and> fsub (x4 (bounds1 (calculateTriangleAABB flat_v1 flat_v2 flat_v3)))
           (x4 (bounds0 (calculateTriangleAABB flat_v1 flat_v2 flat_v3))) = Fin 0"
proof -
  have "calculateTriangleAABB flat_v1 flat_v2 flat_v3 =
     \<lparr> bounds0 = vec4 (Fin 4) (Fin 0) (Fin 0) (Fin 0),
       bounds1 = vec4 (Fin 4) (Fin 1) (Fin 1) (Fin 0) \<rparr>"
    by (simp add: calculateTriangleAABB_def flat_v1_def flat_v2_def flat_v3_def vec_simps
        FLT_EPSILON_def Let_def round32_4_plus_epsilon round32_4_minus_epsilon)
  then show ?thesis by (simp add: vec_simps)
qed

text \<open>
  Claim C3 fails on the code.  For the triangle \<open>(0,0,5), (1,0,5), (0,1,5)\<close> and the ray
  from the origin along \<open>x\<close>, parallel to the triangle's plane, the determinant is exactly
  0, \<^verbatim>\<open>inv_det = 1.0f / det\<close> is infinite, and \<^verbatim>\<open>t = dot(edge2, qvec) * inv_det * flag\<close>
  is an infinity times zero: the \<open>w\<close> lane is NaN, not 0.  The normal lanes are
  \<open>(0, 0, 1)\<close>.
\<close>

theorem triangleIntersect_parallel_ray_nan:
  "triangleDet tri_v0 tri_v1 tri_v2 ray_along_x = Fin 0
   \<and> triangleIntersect tri_v0 tri_v1 tri_v2 ray_origin ray_along_x
       = vec4 (Fin 0) (Fin 0) (Fin 1) NaN"
proof -
  have det: "triangleDet tri_v0 tri_v1 tri_v2 ray_along_x = Fin 0"
    by (simp add: triangleDet_def tri_v0_def tri_v1_def tri_v2_def ray_along_x_def vec_simps)
  have "triangleIntersect tri_v0 tri_v1 tri_v2 ray_origin ray_along_x
       = vec4 (Fin 0) (Fin 0) (Fin 1) NaN"
    by (simp add: triangleIntersect_def tri_v0_def tri_v1_def tri_v2_def ray_along_x_def
        ray_origin_def vec_simps normalize_def FLT_EPSILON_def Let_def)
  with det show ?thesis by simp
qed

lemma sqrt_ge_small:
  assumes "1 / 2 ^ 23 \<le> a"
  shows "1 / 2 ^ 126 \<le> sqrt a"
proof -
  have "(1 / 2 ^ 12) ^ 2 \<le> a"
  proof -
    have "((1::real) / 2 ^ 12) ^ 2 \<le> 1 / 2 ^ 23" by (simp add: power2_eq_square)
    with assms show ?thesis by linarith
  qed
  then have "sqrt ((1 / 2 ^ 12) ^ 2) \<le> sqrt a" by (simp only: real_sqrt_le_iff)
  then have "1 / 2 ^ 12 \<le> sqrt a" by simp
  moreover have "(1::real) / 2 ^ 126 \<le> 1 / 2 ^ 12" by simp
  ultimately show ?thesis by linarith
qed

lemma fsqrt_nonzero:
  assumes "\<not> flt d FLT_EPSILON"
  shows "fsqrt d \<noteq> Fin 0"
proof (cases d)
  case (Fin a)
  with assms have a: "1 / 2 ^ 23 \<le> a" by (simp add: FLT_EPSILON_def not_less)
  moreover have "(0::real) < 1 / 2 ^ 23" by simp
  ultimately have "\<not> a < 0" by linarith
  then show ?thesis using Fin round32_nonzero [OF sqrt_ge_small [OF a]] by simp
qed (use assms in \<open>simp_all add: FLT_EPSILON_def\<close>)

text \<open>
  Claim C10.  A quaternion whose squared magnitude is below \<^verbatim>\<open>FLT_EPSILON\<close> becomes the
  identity rotation and nothing is divided.  Otherwise the divisor \<^verbatim>\<open>sqrt(d)\<close> is not
  zero, and the four components are multiplied by \<^verbatim>\<open>1 / sqrt(d)\<close>.
\<close>

theorem normalizeQuaternion_guard:
  "(flt (squaredMagnitude q) FLT_EPSILON \<longrightarrow>
      normalizeQuaternion q = q\<lparr> q_r := Fin 1, q_i := Fin 0, q_j := Fin 0, q_k := Fin 0 \<rparr>)
   \<and> (\<not> flt (squaredMagnitude q) FLT_EPSILON \<longrightarrow>
        fsqrt (squaredMagnitude q) \<noteq> Fin 0
        \<and> normalizeQuaternion q =
            q\<lparr> q_r := fmul (q_r q) (fdiv (Fin 1) (fsqrt (squaredMagnitude q))),
               q_i := fmul (q_i q) (fdiv (Fin 1) (fsqrt (squaredMagnitude q))),
               q_j := fmul (q_j q) (fdiv (Fin 1) (fsqrt (squaredMagnitude q))),
               q_k := fmul (q_k q) (fdiv (Fin 1) (fsqrt (squaredMagnitude q))) \<rparr>)"
  using fsqrt_nonzero [of "squaredMagnitude q"]
  by (simp add: normalizeQuaternion_def Let_def)

theorem normalizeQuaternion_guard_witness:
  "flt (squaredMagnitude \<lparr> q_r = Fin 0, q_i = Fin 0, q_j = Fin 0, q_k = Fin 0 \<rparr>) FLT_EPSILON
   \<and> normalizeQuaternion \<lparr> q_r = Fin 0, q_i = Fin 0, q_j = Fin 0, q_k = Fin 0 \<rparr> = zeroRotation
   \<and> \<not> flt (squaredMagnitude \<lparr> q_r = Fin 2, q_i = Fin 0, q_j = Fin 0, q_k = Fin 0 \<rparr>) FLT_EPSILON
   \<and> fsqrt (squaredMagnitude \<lparr> q_r = Fin 2, q_i = Fin 0, q_j = Fin 0, q_k = Fin 0 \<rparr>) = Fin 2
   \<and> normalizeQuaternion \<lparr> q_r = Fin 2, q_i = Fin 0, q_j = Fin 0, q_k = Fin 0 \<rparr> = zeroRotation"
proof -
  let ?z = "\<lparr> q_r = Fin 0, q_i = Fin 0, q_j = Fin 0, q_k = Fin 0 \<rparr>"
  let ?t = "\<lparr> q_r = Fin 2, q_i = Fin 0, q_j = Fin 0, q_k = Fin 0 \<rparr>"
  have half: "round32 (1 / 2) = Fin (1 / 2)"
    by (rule round32_steps [where e = "- 1" and u = "1 / 2 ^ 24" and m = "2 ^ 23"])
       (simp_all add: expo_def nbits.simps pow2_def rhe_def Let_def)
  have z: "squaredMagnitude ?z = Fin 0" by (simp add: squaredMagnitude_def)
  have t: "squaredMagnitude ?t = Fin 4" by (simp add: squaredMagnitude_def)
  have s: "fsqrt (Fin 4) = Fin 2" by simp
  have fz: "flt (squaredMagnitude ?z) FLT_EPSILON" by (simp add: z FLT_EPSILON_def)
  have ft: "\<not> flt (squaredMagnitude ?t) FLT_EPSILON" by (simp add: t FLT_EPSILON_def)
  from normalizeQuaternion_guard [of ?z] fz
  have "normalizeQuaternion ?z = zeroRotation" by (simp add: zeroRotation_def)
  moreover from normalizeQuaternion_guard [of ?t] ft
  have "normalizeQuaternion ?t = zeroRotation" by (simp add: zeroRotation_def t s half)
  ultimately show ?thesis using fz ft t s by simp
qed

section \<open>Properties of the BVH traversal\<close>

lemma AABBIntersect_box_10: "AABBIntersect (box_z 10 11 ty) (origin ray_z) (direction ray_z) = Fin 10"
  by (simp add: AABBIntersect_def slab_def box_z_def ray_z_def vec_simps Let_def)

lemma AABBIntersect_box_1: "AABBIntersect (box_z 1 2 ty) (origin ray_z) (direction ray_z) = Fin 1"
  by (simp add: AABBIntersect_def slab_def box_z_def ray_z_def vec_simps Let_def)

text \<open>
  Claim C1, as the code has it.  At an internal node whose two children are in the node
  array: when both children are valid the traversal descends into \<open>child_a\<close> and pushes
  \<open>child_b\<close> (whatever the two distances are); when only one is valid it descends into
  that one; when neither is valid it pops the stack.
\<close>

theorem bvh_step_inner_node:
  assumes "readAt bvh (unat (currentIdx s)) = Inr node"
    and "feq (node_type node) INNER_NODE"
    and "readAt bvh (unat (childA node)) = Inr nodeA"
    and "readAt bvh (unat (childB node)) = Inr nodeB"
  shows "bvh_step ray bvh scn s =
     (if childValid ray (boundingBox nodeA) \<and> childValid ray (boundingBox nodeB)
      then push (childB node) (s\<lparr> currentIdx := childA node \<rparr>)
      else if childValid ray (boundingBox nodeA) then Inr (s\<lparr> currentIdx := childA node \<rparr>)
      else if childValid ray (boundingBox nodeB) then Inr (s\<lparr> currentIdx := childB node \<rparr>)
      else pop s)"
  using assms by (simp add: bvh_step_def childValid_def Let_def)

theorem bvh_step_inner_node_witness:
  "readAt bvh3 (unat (currentIdx (initial_traversal 2))) = Inr (bvh3 ! 2)
   \<and> feq (node_type (bvh3 ! 2)) INNER_NODE
   \<and> readAt bvh3 (unat (childA (bvh3 ! 2))) = Inr (bvh3 ! 0)
   \<and> readAt bvh3 (unat (childB (bvh3 ! 2))) = Inr (bvh3 ! 1)
   \<and> childValid ray_z (boundingBox (bvh3 ! 0)) \<and> childValid ray_z (boundingBox (bvh3 ! 1))
   \<and> bvh_step ray_z bvh3 scene0 (initial_traversal 2)
       = push 1 ((initial_traversal 2)\<lparr> currentIdx := 0 \<rparr>)
   \<and> push 1 ((initial_traversal 2)\<lparr> currentIdx := 0 \<rparr>)
       = Inr ((initial_traversal 2)\<lparr> stack := (replicate 32 0)[0 := UINT_MAX, 1 := 1],
                stackPointer := 2, currentIdx := 0 \<rparr>)"
proof -
  have r: "readAt bvh3 (unat (currentIdx (initial_traversal 2))) = Inr (bvh3 ! 2)"
    by (simp add: readAt_def initial_traversal_def bvh3_def)
  have t: "feq (node_type (bvh3 ! 2)) INNER_NODE"
    by (simp add: node_type_def bvh3_def box_z_def INNER_NODE_def vec4_def)
  have a: "readAt bvh3 (unat (childA (bvh3 ! 2))) = Inr (bvh3 ! 0)"
    by (simp add: readAt_def childA_def bvh3_def)
  have b: "readAt bvh3 (unat (childB (bvh3 ! 2))) = Inr (bvh3 ! 1)"
    by (simp add: readAt_def childB_def bvh3_def)
  have va: "childValid ray_z (boundingBox (bvh3 ! 0))"
    by (simp add: childValid_def bvh3_def AABBIntersect_box_10 fgt_def)
  have vb: "childValid ray_z (boundingBox (bvh3 ! 1))"
    by (simp add: childValid_def bvh3_def AABBIntersect_box_1 fgt_def)
  have ca: "childA (bvh3 ! 2) = 0" and cb: "childB (bvh3 ! 2) = 1"
    by (simp_all add: childA_def childB_def bvh3_def)
  have p: "push 1 ((initial_traversal 2)\<lparr> currentIdx := 0 \<rparr>)
       = Inr ((initial_traversal 2)\<lparr> stack := (replicate 32 0)[0 := UINT_MAX, 1 := 1],
                stackPointer := 2, currentIdx := 0 \<rparr>)"
    by (simp add: push_def initial_traversal_def)
  from bvh_step_inner_node [OF r t a b, of ray_z scene0] va vb ca cb
  have "bvh_step ray_z bvh3 scene0 (initial_traversal 2)
       = push 1 ((initial_traversal 2)\<lparr> currentIdx := 0 \<rparr>)" by simp
  with r t a b va vb p show ?thesis by simp
qed

text \<open>
  Claim C1 as the specification words it fails on this hierarchy: both children are
  valid, \<open>child_b\<close> (node 1) is hit at distance 1 and \<open>child_a\<close> (node 0) at distance 10,
  and the traversal descends into node 0 and pushes node 1.
\<close>

theorem bvh_step_nearer_child_counterexample:
  "AABBIntersect (boundingBox (bvh3 ! 0)) (origin ray_z) (direction ray_z) = Fin 10
   \<and> AABBIntersect (boundingBox (bvh3 ! 1)) (origin ray_z) (direction ray_z) = Fin 1
   \<and> spec_nearer_child ray_z bvh3 (bvh3 ! 2) = 1
   \<and> map_sum id currentIdx (bvh_step ray_z bvh3 scene0 (initial_traversal 2)) = Inr 0"
proof -
  have a: "AABBIntersect (boundingBox (bvh3 ! 0)) (origin ray_z) (direction ray_z) = Fin 10"
    by (simp add: bvh3_def AABBIntersect_box_10)
  have b: "AABBIntersect (boundingBox (bvh3 ! 1)) (origin ray_z) (direction ray_z) = Fin 1"
    by (simp add: bvh3_def AABBIntersect_box_1)
  have ca: "childA (bvh3 ! 2) = 0" and cb: "childB (bvh3 ! 2) = 1"
    by (simp_all add: childA_def childB_def bvh3_def)
  have n: "spec_nearer_child ray_z bvh3 (bvh3 ! 2) = 1"
    unfolding spec_nearer_child_def ca cb using a b by (simp add: fle_def)
  have "bvh_step ray_z bvh3 scene0 (initial_traversal 2)
       = push 1 ((initial_traversal 2)\<lparr> currentIdx := 0 \<rparr>)"
    using a b
    by (simp add: bvh_step_def readAt_def initial_traversal_def bvh3_def node_type_def
        childA_def childB_def box_z_def INNER_NODE_def vec4_def fgt_def Let_def
        AABBIntersect_box_10 [unfolded box_z_def vec4_def] AABBIntersect_box_1 [unfolded box_z_def vec4_def])
  then have "map_sum id currentIdx (bvh_step ray_z bvh3 scene0 (initial_traversal 2)) = Inr 0"
    by (simp add: push_def initial_traversal_def)
  with a b n show ?thesis by simp
qed

section \<open>Properties of the top-level pairs\<close>

lemma unat_succ: "(a :: u32) \<noteq> - 1 \<Longrightarrow> unat (a + 1) = Suc (unat a)"
  by (metis Suc_eq_plus1 add.commute add_eq_0_iff2 unatSuc)

lemma le_not_max: "(a :: u32) \<le> b \<Longrightarrow> b \<noteq> - 1 \<Longrightarrow> a \<noteq> - 1"
  by (metis word_order.extremum_uniqueI)

lemma cells_between_step:
  assumes "a \<le> b" and "b \<noteq> - 1"
  shows "cells_between a b = a # cells_between (a + 1) b"
proof -
  have a: "a \<noteq> - 1" using assms by (rule le_not_max)
  have "unat a < Suc (unat b)" using assms(1) by (simp add: word_le_nat_alt)
  then have "[unat a ..< Suc (unat b)] = unat a # [Suc (unat a) ..< Suc (unat b)]"
    by (rule upt_conv_Cons)
  then show ?thesis
    unfolding cells_between_def unat_succ [OF a] by simp
qed

lemma cells_between_empty: "\<not> a \<le> b \<Longrightarrow> cells_between a b = []"
  by (auto simp: cells_between_def word_le_nat_alt)

lemma length_cells_between: "length (cells_between a b) = Suc (unat b) - unat a"
  by (simp only: cells_between_def length_map length_upt)

lemma unat_add_small:
  "unat (a :: u32) + unat b < 2 ^ 32 \<Longrightarrow> unat (a + b) = unat a + unat b"
  by (simp add: unat_add_lem [THEN iffD1])

lemma writeX_row:
  assumes "ex \<noteq> - 1"
    and "length A = unat firstPairIdx + unat cellCounter"
    and "length old = length (cells_between x ex)"
    and "unat firstPairIdx + unat cellCounter + length old < 2 ^ 32"
  shows "writeX grid firstPairIdx triangleIdx z y x ex (A @ old @ rest) cellCounter
         = Some (Inr (A @ row_pairs grid triangleIdx z y x ex @ rest,
                      cellCounter + of_nat (length old)))"
  using assms
proof (induction "Suc (unat ex) - unat x" arbitrary: x A old cellCounter rule: less_induct)
  case less
  show ?case
  proof (cases "x \<le> ex")
    case False
    then have e: "cells_between x ex = []" by (rule cells_between_empty)
    with less.prems(3) have "old = []" by simp
    then show ?thesis
      using False by (subst writeX.simps) (simp add: row_pairs_def e)
  next
    case True
    have x: "x \<noteq> - 1" using True less.prems(1) by (rule le_not_max)
    have cs: "cells_between x ex = x # cells_between (x + 1) ex"
      using True less.prems(1) by (rule cells_between_step)
    with less.prems(3) obtain b old' where old: "old = b # old'"
      and len': "length old' = length (cells_between (x + 1) ex)"
      by (cases old) auto
    let ?p = "\<lparr> x2 = getCellIndex x y z (resX grid) (resY grid) (resZ grid), y2 = triangleIdx \<rparr>"
    have small: "unat firstPairIdx + unat cellCounter < 2 ^ 32"
      using less.prems(4) by simp
    have i: "unat (firstPairIdx + cellCounter) = length A"
      using small less.prems(2) by (simp add: unat_add_small)
    have "unat cellCounter + unat (1 :: u32) < 2 ^ 32"
      using less.prems(4) old by simp
    then have uc: "unat (cellCounter + 1) = Suc (unat cellCounter)"
      using unat_add_small [of cellCounter 1] by simp
    have m: "Suc (unat ex) - unat (x + 1) < Suc (unat ex) - unat x"
      using True by (simp add: unat_succ [OF x] word_le_nat_alt)
    have IH: "writeX grid firstPairIdx triangleIdx z y (x + 1) ex ((A @ [?p]) @ old' @ rest)
                (cellCounter + 1)
              = Some (Inr ((A @ [?p]) @ row_pairs grid triangleIdx z y (x + 1) ex @ rest,
                           cellCounter + 1 + of_nat (length old')))"
      using less.prems(1,2,4) len' old
      by (intro less.hyps [OF m]) (simp_all add: uc)
    have "writeX grid firstPairIdx triangleIdx z y x ex (A @ old @ rest) cellCounter
          = writeX grid firstPairIdx triangleIdx z y (x + 1) ex ((A @ [?p]) @ old' @ rest)
              (cellCounter + 1)"
      using True by (subst writeX.simps) (simp add: i old)
    also note IH
    finally show ?thesis
      by (simp add: row_pairs_def cs old)
  qed
qed

lemma length_row_pairs: "length (row_pairs grid t z y cx ex) = length (cells_between cx ex)"
  by (simp add: row_pairs_def)

lemma slice_pairs_step:
  assumes "y \<le> ey" and "ey \<noteq> - 1"
  shows "slice_pairs grid t z y ey cx ex
         = row_pairs grid t z y cx ex @ slice_pairs grid t z (y + 1) ey cx ex"
  by (simp add: slice_pairs_def cells_between_step [OF assms])

lemma slice_pairs_empty: "\<not> y \<le> ey \<Longrightarrow> slice_pairs grid t z y ey cx ex = []"
  by (simp add: slice_pairs_def cells_between_empty)

lemma of_nat_length_add:
  "(c :: u32) + of_nat m + of_nat n = c + of_nat (m + n)"
  by simp

lemma writeY_slice:
  assumes "ex \<noteq> - 1" and "ey \<noteq> - 1"
    and "length A = unat firstPairIdx + unat cellCounter"
    and "length old = length (slice_pairs grid triangleIdx z y ey cx ex)"
    and "unat firstPairIdx + unat cellCounter + length old < 2 ^ 32"
  shows "writeY grid firstPairIdx triangleIdx z y ey cx ex (A @ old @ rest) cellCounter
         = Some (Inr (A @ slice_pairs grid triangleIdx z y ey cx ex @ rest,
                      cellCounter + of_nat (length old)))"
  using assms
proof (induction "Suc (unat ey) - unat y" arbitrary: y A old cellCounter rule: less_induct)
  case less
  show ?case
  proof (cases "y \<le> ey")
    case False
    then have e: "slice_pairs grid triangleIdx z y ey cx ex = []" by (rule slice_pairs_empty)
    with less.prems(4) have "old = []" by simp
    then show ?thesis
      using False by (subst writeY.simps) (simp add: e)
  next
    case True
    have y: "y \<noteq> - 1" using True less.prems(2) by (rule le_not_max)
    let ?row = "row_pairs grid triangleIdx z y cx ex"
    let ?n = "length (cells_between cx ex)"
    have sp: "slice_pairs grid triangleIdx z y ey cx ex
              = ?row @ slice_pairs grid triangleIdx z (y + 1) ey cx ex"
      using True less.prems(2) by (rule slice_pairs_step)
    define old1 where "old1 = take ?n old"
    define old2 where "old2 = drop ?n old"
    have old: "old = old1 @ old2" by (simp add: old1_def old2_def)
    have l1: "length old1 = ?n"
      using less.prems(4) by (simp add: old1_def sp length_row_pairs)
    have l2: "length old2 = length (slice_pairs grid triangleIdx z (y + 1) ey cx ex)"
      using less.prems(4) by (simp add: old2_def sp length_row_pairs)
    have lold: "length old = ?n + length old2" using l1 old by simp
    have X: "writeX grid firstPairIdx triangleIdx z y cx ex (A @ old1 @ (old2 @ rest)) cellCounter
             = Some (Inr (A @ ?row @ (old2 @ rest), cellCounter + of_nat (length old1)))"
      using less.prems(1,3,5) l1 lold by (intro writeX_row) simp_all
    have small: "unat cellCounter + ?n < 2 ^ 32" using less.prems(5) lold by simp
    have un: "unat (of_nat ?n :: u32) = ?n"
      using small by (simp add: unat_of_nat)
    have uc: "unat (cellCounter + of_nat ?n) = unat cellCounter + ?n"
      using small un by (simp add: unat_add_small)
    have m: "Suc (unat ey) - unat (y + 1) < Suc (unat ey) - unat y"
      using True by (simp add: unat_succ [OF y] word_le_nat_alt)
    have IH: "writeY grid firstPairIdx triangleIdx z (y + 1) ey cx ex ((A @ ?row) @ old2 @ rest)
                (cellCounter + of_nat ?n)
              = Some (Inr ((A @ ?row) @ slice_pairs grid triangleIdx z (y + 1) ey cx ex @ rest,
                           cellCounter + of_nat ?n + of_nat (length old2)))"
      using less.prems(1,2,3,5) l2 lold
      by (intro less.hyps [OF m]) (simp_all add: uc length_row_pairs)
    have "writeY grid firstPairIdx triangleIdx z y ey cx ex (A @ old @ rest) cellCounter
          = writeY grid firstPairIdx triangleIdx z (y + 1) ey cx ex ((A @ ?row) @ old2 @ rest)
              (cellCounter + of_nat ?n)"
      using True X by (subst writeY.simps) (simp add: old l1)
    also note IH
    finally show ?thesis
      by (simp add: sp lold of_nat_length_add del: of_nat_add)
  qed
qed

lemma triangle_pairs_step:
  assumes "uz c \<le> uz e" and "uz e \<noteq> - 1"
  shows "triangle_pairs grid t c e
         = slice_pairs grid t (uz c) (uy c) (uy e) (ux c) (ux e)
           @ triangle_pairs grid t (c\<lparr> uz := uz c + 1 \<rparr>) e"
  by (simp add: triangle_pairs_def cells_between_step [OF assms])

lemma triangle_pairs_empty: "\<not> uz c \<le> uz e \<Longrightarrow> triangle_pairs grid t c e = []"
  by (simp add: triangle_pairs_def cells_between_empty)

lemma writeZ_triangle:
  assumes "ux e \<noteq> - 1" and "uy e \<noteq> - 1" and "uz e \<noteq> - 1"
    and "length A = unat firstPairIdx + unat cellCounter"
    and "length old = length (triangle_pairs grid triangleIdx c e)"
    and "unat firstPairIdx + unat cellCounter + length old < 2 ^ 32"
  shows "writeZ grid firstPairIdx triangleIdx (uz c) (uz e) (uy c) (uy e) (ux c) (ux e)
           (A @ old @ rest) cellCounter
         = Some (Inr (A @ triangle_pairs grid triangleIdx c e @ rest,
                      cellCounter + of_nat (length old)))"
  using assms
proof (induction "Suc (unat (uz e)) - unat (uz c)" arbitrary: c A old cellCounter rule: less_induct)
  case less
  show ?case
  proof (cases "uz c \<le> uz e")
    case False
    then have e: "triangle_pairs grid triangleIdx c e = []" by (rule triangle_pairs_empty)
    with less.prems(5) have "old = []" by simp
    then show ?thesis
      using False by (subst writeZ.simps) (simp add: e)
  next
    case True
    have z: "uz c \<noteq> - 1" using True less.prems(3) by (rule le_not_max)
    let ?c' = "c\<lparr> uz := uz c + 1 \<rparr>"
    let ?sl = "slice_pairs grid triangleIdx (uz c) (uy c) (uy e) (ux c) (ux e)"
    let ?n = "length ?sl"
    have tp: "triangle_pairs grid triangleIdx c e = ?sl @ triangle_pairs grid triangleIdx ?c' e"
      using True less.prems(3) by (rule triangle_pairs_step)
    define old1 where "old1 = take ?n old"
    define old2 where "old2 = drop ?n old"
    have old: "old = old1 @ old2" by (simp add: old1_def old2_def)
    have l1: "length old1 = ?n"
      using less.prems(5) by (simp add: old1_def tp)
    have l2: "length old2 = length (triangle_pairs grid triangleIdx ?c' e)"
      using less.prems(5) by (simp add: old2_def tp)
    have lold: "length old = ?n + length old2" using l1 old by simp
    have Y: "writeY grid firstPairIdx triangleIdx (uz c) (uy c) (uy e) (ux c) (ux e)
               (A @ old1 @ (old2 @ rest)) cellCounter
             = Some (Inr (A @ ?sl @ (old2 @ rest), cellCounter + of_nat (length old1)))"
      using less.prems(1,2,4,6) l1 lold by (intro writeY_slice) simp_all
    have small: "unat cellCounter + ?n < 2 ^ 32" using less.prems(6) lold by simp
    have un: "unat (of_nat ?n :: u32) = ?n"
      using small by (simp add: unat_of_nat)
    have uc: "unat (cellCounter + of_nat ?n) = unat cellCounter + ?n"
      using small un by (simp add: unat_add_small)
    have m: "Suc (unat (uz e)) - unat (uz ?c') < Suc (unat (uz e)) - unat (uz c)"
      using True by (simp add: unat_succ [OF z] word_le_nat_alt)
    have IH: "writeZ grid firstPairIdx triangleIdx (uz ?c') (uz e) (uy ?c') (uy e) (ux ?c') (ux e)
                ((A @ ?sl) @ old2 @ rest) (cellCounter + of_nat ?n)
              = Some (Inr ((A @ ?sl) @ triangle_pairs grid triangleIdx ?c' e @ rest,
                           cellCounter + of_nat ?n + of_nat (length old2)))"
      using less.prems(1,2,3,4,6) l2 lold
      by (intro less.hyps [OF m]) (simp_all add: uc)
    have "writeZ grid firstPairIdx triangleIdx (uz c) (uz e) (uy c) (uy e) (ux c) (ux e)
            (A @ old @ rest) cellCounter
          = writeZ grid firstPairIdx triangleIdx (uz c + 1) (uz e) (uy c) (uy e) (ux c) (ux e)
              ((A @ ?sl) @ old2 @ rest) (cellCounter + of_nat ?n)"
      using True Y by (subst writeZ.simps) (simp add: old l1)
    also have "\<dots> = Some (Inr ((A @ ?sl) @ triangle_pairs grid triangleIdx ?c' e @ rest,
                           cellCounter + of_nat ?n + of_nat (length old2)))"
      using IH by simp
    finally show ?thesis
      by (simp add: tp lold of_nat_length_add del: of_nat_add)
  qed
qed

lemma length_concat_const:
  "(\<And>x. length (f x) = k) \<Longrightarrow> length (concat (map f xs)) = length xs * k"
  by (induction xs) simp_all

lemma length_slice_pairs:
  "length (slice_pairs grid t z cy ey cx ex)
   = length (cells_between cy ey) * length (cells_between cx ex)"
  unfolding slice_pairs_def by (rule length_concat_const) (rule length_row_pairs)

lemma length_triangle_pairs:
  "length (triangle_pairs grid t c e)
   = length (cells_between (uz c) (uz e))
     * (length (cells_between (uy c) (uy e)) * length (cells_between (ux c) (ux e)))"
  unfolding triangle_pairs_def by (rule length_concat_const) (rule length_slice_pairs)

lemma min3u_maxGridIdx:
  assumes "resX grid \<noteq> 0" and "resY grid \<noteq> 0" and "resZ grid \<noteq> 0"
  shows "ux (min3u c (maxGridIdx grid)) \<noteq> - 1"
    and "uy (min3u c (maxGridIdx grid)) \<noteq> - 1"
    and "uz (min3u c (maxGridIdx grid)) \<noteq> - 1"
proof -
  have k: "min a (r - 1) \<noteq> - 1" if "r \<noteq> 0" for a r :: u32
  proof
    assume "min a (r - 1) = - 1"
    then have "r - 1 = - 1" by (metis min.cobounded2 word_order.extremum_uniqueI)
    then show False using that by simp
  qed
  show "ux (min3u c (maxGridIdx grid)) \<noteq> - 1"
    and "uy (min3u c (maxGridIdx grid)) \<noteq> - 1"
    and "uz (min3u c (maxGridIdx grid)) \<noteq> - 1"
    using assms by (simp_all add: min3u_def maxGridIdx_def k)
qed

lemma cellExtents_not_max:
  assumes "cellExtents v0 v1 v2 grid = Inr e"
    and "resX grid \<noteq> 0" and "resY grid \<noteq> 0" and "resZ grid \<noteq> 0"
  shows "ux e \<noteq> - 1" and "uy e \<noteq> - 1" and "uz e \<noteq> - 1"
proof -
  from assms(1) obtain c where "e = min3u c (maxGridIdx grid)"
    unfolding cellExtents_def by (auto simp: map_sum_def split: sum.splits)
  then show "ux e \<noteq> - 1" and "uy e \<noteq> - 1" and "uz e \<noteq> - 1"
    using min3u_maxGridIdx [OF assms(2,3,4)] by simp_all
qed

text \<open>What \<^verbatim>\<open>writeOverlappingPairs\<close> does to the pairs array: the slots from
  \<^verbatim>\<open>firstPairIdx\<close> on receive the pairs of the triangle, in order; nothing else changes.\<close>

lemma writeOverlappingPairs_slots:
  assumes "cell v0 v1 v2 grid = Inr c" and "cellExtents v0 v1 v2 grid = Inr e"
    and "resX grid \<noteq> 0" and "resY grid \<noteq> 0" and "resZ grid \<noteq> 0"
    and "length A = unat firstPairIdx"
    and "length old = length (triangle_pairs grid triangleIdx c e)"
    and "unat firstPairIdx + length old < 2 ^ 32"
  shows "writeOverlappingPairs v0 v1 v2 grid firstPairIdx triangleIdx (A @ old @ rest)
         = Some (Inr (A @ triangle_pairs grid triangleIdx c e @ rest))"
proof -
  note ne = cellExtents_not_max [OF assms(2,3,4,5)]
  have "writeZ grid firstPairIdx triangleIdx (uz c) (uz e) (uy c) (uy e) (ux c) (ux e)
           (A @ old @ rest) 0
         = Some (Inr (A @ triangle_pairs grid triangleIdx c e @ rest, 0 + of_nat (length old)))"
    using ne assms(6,7,8) by (intro writeZ_triangle) simp_all
  then show ?thesis
    by (simp add: writeOverlappingPairs_def assms(1,2))
qed

text \<open>
  Claim C5.  \<^verbatim>\<open>writePairs\<close> for the triangle \<open>g\<close> writes the pairs \<open>(cell index, g)\<close> of
  every cell from the first to the last cell of the triangle's box (each coordinate at
  most \<^verbatim>\<open>res - 1\<close>), \<open>x\<close> fastest, in consecutive slots of the pairs array starting at
  \<^verbatim>\<open>prefixSum[g] - counters[g]\<close>, and changes no other slot.
\<close>

theorem writePairs_placement:
  assumes "getTriangleRefByIndex g = (m, sm, t)" and "scn m sm t = (v0, v1, v2, mat)"
    and "readAt prefixSum (unat g) = Inr p" and "readAt counters (unat g) = Inr n"
    and "cell v0 v1 v2 grid = Inr c" and "cellExtents v0 v1 v2 grid = Inr e"
    and "resX grid \<noteq> 0" and "resY grid \<noteq> 0" and "resZ grid \<noteq> 0"
    and "length A = unat (p - n)"
    and "length old = length (triangle_pairs grid g c e)"
    and "unat (p - n) + length old < 2 ^ 32"
  shows "writePairs getTriangleRefByIndex scn g grid prefixSum counters (A @ old @ rest)
         = Some (Inr (A @ triangle_pairs grid g c e @ rest))"
  using writeOverlappingPairs_slots [OF assms(5-12), of rest]
  by (simp add: writePairs_def assms(1-4))

lemma unit_grid_simps:
  "resX (unit_grid rx ry rz) = rx" "resY (unit_grid rx ry rz) = ry" "resZ (unit_grid rx ry rz) = rz"
  "bboxOrigin (unit_grid rx ry rz) = vec3 (Fin 0) (Fin 0) (Fin 0)"
  "gridStep (unit_grid rx ry rz) = vec3 (Fin 1) (Fin 1) (Fin 1)"
  by (simp_all add: unit_grid_def bboxOrigin_def gridStep_def vec4_def)

lemmas grid_eval = cell_def cellExtents_def convert_uint3_def min3u_def maxGridIdx_def
  unit_grid_simps min3_def max3_def sub3_def div3_def floor3_def vec3_def fmin_def fmax_def
  fgt_def fsub_def

lemma small_cell: "cell small_v0 small_v1 small_v2 (unit_grid 2 2 1) = Inr \<lparr> ux = 0, uy = 0, uz = 0 \<rparr>"
  by (simp add: grid_eval small_v0_def small_v1_def small_v2_def)

lemma small_cellExtents:
  "cellExtents small_v0 small_v1 small_v2 (unit_grid 2 2 1) = Inr \<lparr> ux = 1, uy = 1, uz = 0 \<rparr>"
  by (simp add: grid_eval small_v0_def small_v1_def small_v2_def)

lemma cells_between_0_1: "cells_between 0 1 = [0, 1]"
  by (simp add: cells_between_def upt_rec)

lemma cells_between_0_0: "cells_between 0 0 = [0]"
  by (simp add: cells_between_def upt_rec)

lemma small_triangle_pairs:
  "triangle_pairs (unit_grid 2 2 1) 1 \<lparr> ux = 0, uy = 0, uz = 0 \<rparr> \<lparr> ux = 1, uy = 1, uz = 0 \<rparr>
   = [\<lparr> x2 = 0, y2 = 1 \<rparr>, \<lparr> x2 = 1, y2 = 1 \<rparr>, \<lparr> x2 = 2, y2 = 1 \<rparr>, \<lparr> x2 = 3, y2 = 1 \<rparr>]"
  by (simp add: triangle_pairs_def slice_pairs_def row_pairs_def cells_between_0_1
      cells_between_0_0 getCellIndex_def unit_grid_simps)

theorem writePairs_placement_witness:
  "refs0 1 = (0, 0, 1) \<and> small_scene 0 0 1 = (small_v0, small_v1, small_v2, 0)
   \<and> readAt [4, 8] (unat (1 :: u32)) = Inr (8 :: u32)
   \<and> readAt [4, 4] (unat (1 :: u32)) = Inr (4 :: u32)
   \<and> cell small_v0 small_v1 small_v2 (unit_grid 2 2 1) = Inr \<lparr> ux = 0, uy = 0, uz = 0 \<rparr>
   \<and> cellExtents small_v0 small_v1 small_v2 (unit_grid 2 2 1) = Inr \<lparr> ux = 1, uy = 1, uz = 0 \<rparr>
   \<and> writePairs refs0 small_scene 1 (unit_grid 2 2 1) [4, 8] [4, 4]
        (free_pairs 4 @ free_pairs 4 @ [])
      = Some (Inr (free_pairs 4
          @ [\<lparr> x2 = 0, y2 = 1 \<rparr>, \<lparr> x2 = 1, y2 = 1 \<rparr>, \<lparr> x2 = 2, y2 = 1 \<rparr>, \<lparr> x2 = 3, y2 = 1 \<rparr>]
          @ []))"
proof -
  have h1: "refs0 1 = (0, 0, 1)" by (simp add: refs0_def)
  have h2: "small_scene 0 0 1 = (small_v0, small_v1, small_v2, 0)" by (simp add: small_scene_def)
  have h3: "readAt [4, 8] (unat (1 :: u32)) = Inr (8 :: u32)" by (simp add: readAt_def)
  have h4: "readAt [4, 4] (unat (1 :: u32)) = Inr (4 :: u32)" by (simp add: readAt_def)
  have h7: "resX (unit_grid 2 2 1) \<noteq> 0" "resY (unit_grid 2 2 1) \<noteq> 0" "resZ (unit_grid 2 2 1) \<noteq> 0"
    by (simp_all add: unit_grid_simps)
  have h10: "length (free_pairs 4) = unat ((8 :: u32) - 4)" by (simp add: free_pairs_def)
  have h11: "length (free_pairs 4)
     = length (triangle_pairs (unit_grid 2 2 1) 1 \<lparr> ux = 0, uy = 0, uz = 0 \<rparr> \<lparr> ux = 1, uy = 1, uz = 0 \<rparr>)"
    by (simp add: small_triangle_pairs free_pairs_def)
  have h12: "unat ((8 :: u32) - 4) + length (free_pairs 4) < 2 ^ 32" by (simp add: free_pairs_def)
  from writePairs_placement [where getTriangleRefByIndex = refs0 and scn = small_scene
      and g = 1 and rest = "[]", OF h1 h2 h3 h4 small_cell small_cellExtents h7 h10 h11 h12]
  have "writePairs refs0 small_scene 1 (unit_grid 2 2 1) [4, 8] [4, 4]
        (free_pairs 4 @ free_pairs 4 @ [])
      = Some (Inr (free_pairs 4
          @ [\<lparr> x2 = 0, y2 = 1 \<rparr>, \<lparr> x2 = 1, y2 = 1 \<rparr>, \<lparr> x2 = 2, y2 = 1 \<rparr>, \<lparr> x2 = 3, y2 = 1 \<rparr>]
          @ []))"
    by (simp only: small_triangle_pairs)
  with h1 h2 h3 h4 small_cell small_cellExtents show ?thesis by (simp only: simp_thms)
qed

lemma round32_16785409: "round32 16785409 = Fin 16785408"
  by (rule round32_steps [where e = 24 and u = 2 and m = 8392704])
     (simp_all add: expo_def nbits.simps pow2_def rhe_def Let_def)

lemma round32_16785408: "round32 16785408 = Fin 16785408"
  by (rule round32_steps [where e = 24 and u = 2 and m = 8392704])
     (simp_all add: expo_def nbits.simps pow2_def rhe_def Let_def)

lemma wide_count:
  "countOverlappingCells wide_v0 wide_v1 wide_v2 (unit_grid 4099 4099 3) = Inr 16785408"
  by (simp add: countOverlappingCells_def grid_eval add3s_def float_of_uint_def
      wide_v0_def wide_v1_def wide_v2_def round32_16785409 round32_16785408 Let_def)

lemma wide_cell:
  "cell wide_v0 wide_v1 wide_v2 (unit_grid 4099 4099 3) = Inr \<lparr> ux = 1, uy = 1, uz = 1 \<rparr>"
  by (simp add: grid_eval wide_v0_def wide_v1_def wide_v2_def)

lemma wide_cellExtents:
  "cellExtents wide_v0 wide_v1 wide_v2 (unit_grid 4099 4099 3)
   = Inr \<lparr> ux = 4097, uy = 4097, uz = 1 \<rparr>"
  by (simp add: grid_eval wide_v0_def wide_v1_def wide_v2_def)

lemma wide_length:
  "length (triangle_pairs grid t \<lparr> ux = 1, uy = 1, uz = 1 \<rparr> \<lparr> ux = 4097, uy = 4097, uz = 1 \<rparr>)
   = 16785409"
  by (simp add: length_triangle_pairs length_cells_between)

lemma length_free_pairs: "length (free_pairs n) = n"
  by (simp only: free_pairs_def length_replicate)

lemma y2_triangle_pairs:
  "map y2 (triangle_pairs grid t c e) = replicate (length (triangle_pairs grid t c e)) t"
proof -
  have "\<forall>v \<in> set (map y2 (triangle_pairs grid t c e)). v = t"
    by (auto simp: triangle_pairs_def slice_pairs_def row_pairs_def)
  then have "replicate (length (map y2 (triangle_pairs grid t c e))) t
             = map y2 (triangle_pairs grid t c e)"
    by (rule replicate_length_same)
  then show ?thesis by simp
qed

text \<open>
  Claim C9 fails on the code.  In a grid of 4099 by 4099 by 3 unit cells the triangle
  \<open>(1,1,1), (4097,1,1), (1,4097,1)\<close> lies inside the grid box and its box covers the
  cells 1 to 4097 in \<open>x\<close> and in \<open>y\<close> of one layer, 16785409 cells.
  \<^verbatim>\<open>countOverlappingCells\<close> multiplies the extents in \<^verbatim>\<open>float\<close>: \<open>4097 * 4097\<close>
  rounds to 16785408, which it returns; \<^verbatim>\<open>writeOverlappingPairs\<close> writes 16785409
  pairs, one more than the count reserves.
\<close>

theorem countOverlappingCells_undercounts:
  "isPointInside (box (unit_grid 4099 4099 3)) wide_v0
   \<and> isPointInside (box (unit_grid 4099 4099 3)) wide_v1
   \<and> isPointInside (box (unit_grid 4099 4099 3)) wide_v2
   \<and> countOverlappingCells wide_v0 wide_v1 wide_v2 (unit_grid 4099 4099 3) = Inr 16785408
   \<and> (\<exists>written.
         writeOverlappingPairs wide_v0 wide_v1 wide_v2 (unit_grid 4099 4099 3) 0 7
           (free_pairs 16785409) = Some (Inr written)
         \<and> length written = 16785409
         \<and> map y2 written = replicate 16785409 7)"
proof -
  let ?G = "unit_grid 4099 4099 3"
  let ?w = "triangle_pairs ?G 7 \<lparr> ux = 1, uy = 1, uz = 1 \<rparr> \<lparr> ux = 4097, uy = 4097, uz = 1 \<rparr>"
  have inside: "isPointInside (box ?G) wide_v0" "isPointInside (box ?G) wide_v1"
    "isPointInside (box ?G) wide_v2"
    by (simp_all add: isPointInside_def unit_grid_def vec4_def vec3_def fle_def
        wide_v0_def wide_v1_def wide_v2_def Let_def)
  have r: "resX ?G \<noteq> 0" "resY ?G \<noteq> 0" "resZ ?G \<noteq> 0"
    by (simp_all add: unit_grid_simps)
  have l0: "length ([] :: uint2 list) = unat (0 :: u32)" by simp
  have l1: "length (free_pairs 16785409) = length ?w"
    by (simp only: length_free_pairs wide_length)
  have l2: "unat (0 :: u32) + length (free_pairs 16785409) < 2 ^ 32"
    by (simp add: length_free_pairs)
  have "writeOverlappingPairs wide_v0 wide_v1 wide_v2 ?G 0 7 ([] @ free_pairs 16785409 @ [])
        = Some (Inr ([] @ ?w @ []))"
    using wide_cell wide_cellExtents r l0 l1 l2 by (rule writeOverlappingPairs_slots)
  then have w: "writeOverlappingPairs wide_v0 wide_v1 wide_v2 ?G 0 7 (free_pairs 16785409)
        = Some (Inr ?w)"
    by (simp only: append_Nil append_Nil2)
  have y: "map y2 ?w = replicate 16785409 7"
    using y2_triangle_pairs [of ?G 7 "\<lparr> ux = 1, uy = 1, uz = 1 \<rparr>" "\<lparr> ux = 4097, uy = 4097, uz = 1 \<rparr>"]
    by (simp only: wide_length)
  have "\<exists>written.
         writeOverlappingPairs wide_v0 wide_v1 wide_v2 ?G 0 7 (free_pairs 16785409)
           = Some (Inr written)
         \<and> length written = 16785409
         \<and> map y2 written = replicate 16785409 7"
    using w wide_length [of ?G 7] y by blast
  with inside wide_count show ?thesis by blast
qed

section \<open>Properties of the leaf pairs\<close>

























end
